theory Spec2Isabelle
  imports Main "HOL-Library.Sublist"
begin

section \<open>Task list pagination (src/components/task-list.tsx)\<close>

text \<open>
  The pagination block of \<open>TaskListComponent\<close> (lines 255-319) is rendered only when
  \<open>total > pageSize\<close> and an \<open>onPageChange\<close> callback is given. Inside it an
  immediately-invoked function builds the array \<open>pageNumbers\<close> of page numbers and
  \<open>"..."\<close> strings in a \<open>for\<close> loop, and then maps it to elements, returning
  \<open>null\<close> for an ellipsis that follows another one.

  \<open>page\<close>, \<open>pageSize\<close> and \<open>total\<close> are JavaScript numbers; the model takes them
  as integers. For integers with \<open>pageSize \<noteq> 0\<close> the value of
  \<open>Math.ceil(total / pageSize)\<close> is the rounded-up integer quotient. For
  \<open>pageSize = 0\<close> the JavaScript quotient is \<open>Infinity\<close> when \<open>total\<close> is positive,
  and the loop never ends; it is \<open>NaN\<close> or \<open>-Infinity\<close> otherwise, and the loop body
  never runs, as for the value 0 that \<open>totalPages\<close> has then.
\<close>

datatype pageItem = Num int | Ellipsis

definition totalPages :: "int \<Rightarrow> int \<Rightarrow> int" where
  "totalPages totalN pageSize = - ((- totalN) div pageSize)"

text \<open>The two branches of the loop body (lines 270-281) for one value of \<open>i\<close>.\<close>

definition pushFor :: "int \<Rightarrow> int \<Rightarrow> int \<Rightarrow> pageItem list" where
  "pushFor tp page i =
     (if i = 1 \<or> i = tp \<or> (i \<ge> page - 2 \<and> i \<le> page + 2) then [Num i]
      else if (i = page - 3 \<and> page - 3 > 1) \<or> (i = page + 3 \<and> page + 3 < tp) then [Ellipsis]
      else [])"

text \<open>
  The loop \<open>for (let i = 1; i <= totalPages; i++)\<close> for a finite \<open>totalPages\<close>, with
  the array built so far.
\<close>

function pageNumbersLoop :: "int \<Rightarrow> int \<Rightarrow> int \<Rightarrow> pageItem list \<Rightarrow> pageItem list" where
  "pageNumbersLoop i tp page acc =
     (if i \<le> tp then pageNumbersLoop (i + 1) tp page (acc @ pushFor tp page i) else acc)"
  by pat_completeness auto
termination
  by (relation "measure (\<lambda>(i, tp, page, acc). nat (tp + 1 - i))") auto

text \<open>Lines 267-282; \<open>None\<close> when the loop does not end.\<close>

definition pageNumbers :: "int \<Rightarrow> int \<Rightarrow> int \<Rightarrow> pageItem list option" where
  "pageNumbers page pageSize totalN =
     (if pageSize = 0 \<and> totalN > 0 then None
      else Some (pageNumbersLoop 1 (totalPages totalN pageSize) page []))"

text \<open>
  The \<open>map\<close> callback (lines 284-307) with its captured flag \<open>lastWasEllipsis\<close>:
  \<open>None\<close> is the \<open>null\<close> returned for a repeated ellipsis.
\<close>

fun renderItems :: "bool \<Rightarrow> pageItem list \<Rightarrow> pageItem option list" where
  "renderItems lastWasEllipsis [] = []"
| "renderItems lastWasEllipsis (Ellipsis # rest) =
     (if lastWasEllipsis then None # renderItems lastWasEllipsis rest
      else Some Ellipsis # renderItems True rest)"
| "renderItems lastWasEllipsis (Num n # rest) = Some (Num n) # renderItems False rest"

text \<open>React renders nothing for \<open>null\<close>: the items shown are the non-null entries, in order.\<close>

fun nonNull :: "'a option list \<Rightarrow> 'a list" where
  "nonNull [] = []"
| "nonNull (None # rest) = nonNull rest"
| "nonNull (Some x # rest) = x # nonNull rest"

definition pageWindow :: "int \<Rightarrow> int \<Rightarrow> int \<Rightarrow> pageItem list option" where
  "pageWindow page pageSize totalN =
     map_option (\<lambda>nums. nonNull (renderItems False nums)) (pageNumbers page pageSize totalN)"

text \<open>The guard of line 255: whether the pagination block is rendered at all.\<close>

definition paginationShown :: "int \<Rightarrow> int \<Rightarrow> bool \<Rightarrow> bool" where
  "paginationShown pageSize totalN hasOnPageChange = (totalN > pageSize \<and> hasOnPageChange)"


section \<open>Project navigation (ProjectNav, src/unnamed/part_001 lines 163-236)\<close>

record project =
  project_id :: string
  project_name :: string

text \<open>
  \<open>Array.prototype.findIndex\<close>: the index of the first element that satisfies the
  predicate, \<open>-1\<close> when there is none. \<open>k\<close> is the index of the head of the list.
\<close>

fun findIndexFrom :: "nat \<Rightarrow> ('a \<Rightarrow> bool) \<Rightarrow> 'a list \<Rightarrow> int" where
  "findIndexFrom k P [] = - 1"
| "findIndexFrom k P (x # xs) = (if P x then int k else findIndexFrom (Suc k) P xs)"

definition findIndex :: "('a \<Rightarrow> bool) \<Rightarrow> 'a list \<Rightarrow> int" where
  "findIndex P xs = findIndexFrom 0 P xs"

text \<open>
  \<open>Array.prototype.filter\<close> with the three-argument callback \<open>(item, index, self)\<close>.
\<close>

definition filterIndexed :: "('a \<Rightarrow> nat \<Rightarrow> 'a list \<Rightarrow> bool) \<Rightarrow> 'a list \<Rightarrow> 'a list" where
  "filterIndexed f xs =
     map fst (filter (\<lambda>(item, index). f item index xs) (zip xs [0..<length xs]))"

text \<open>Lines 171-174.\<close>

definition uniqueItems :: "project list \<Rightarrow> project list" where
  "uniqueItems items =
     filterIndexed
       (\<lambda>item index self. int index = findIndex (\<lambda>t. project_id t = project_id item) self)
       items"

text \<open>
  The component returns \<open>null\<close> (here \<open>None\<close>) for a missing or empty list, and
  otherwise one collapsible menu entry per element of \<open>uniqueItems\<close>, in order; the
  entries are represented by the projects they are built from.
\<close>

definition ProjectNav :: "project list option \<Rightarrow> project list option" where
  "ProjectNav items =
     (case items of
        None \<Rightarrow> None
      | Some xs \<Rightarrow> if length xs = 0 then None else Some (uniqueItems xs))"

text \<open>The menu entries on screen: none when the component returned \<open>null\<close>.\<close>

definition renderedProjects :: "project list option \<Rightarrow> project list" where
  "renderedProjects r = (case r of None \<Rightarrow> [] | Some xs \<Rightarrow> xs)"

text \<open>Position \<open>i\<close> of the list holds the first element with its project id.\<close>

definition firstOccurrence :: "project list \<Rightarrow> nat \<Rightarrow> bool" where
  "firstOccurrence xs i = (\<forall>j < i. project_id (xs ! j) \<noteq> project_id (xs ! i))"

section \<open>JavaScript values, errors and effects\<close>

text \<open>
  The values that cross the HTTP boundary are untyped at run time (the TypeScript
  interfaces are erased): a parsed JSON body, or an object handed to \<open>JSON.stringify\<close>,
  is a \<open>jsval\<close>. Numbers are modelled as integers.
\<close>

datatype jsval =
    JUndefined
  | JNull
  | JBool bool
  | JNum int
  | JStr string
  | JArr "jsval list"
  | JObj "(string \<times> jsval) list"

text \<open>What \<open>if (v)\<close>, \<open>!v\<close> and \<open>v || w\<close> test.\<close>

fun truthy :: "jsval \<Rightarrow> bool" where
  "truthy JUndefined = False"
| "truthy JNull = False"
| "truthy (JBool b) = b"
| "truthy (JNum n) = (n \<noteq> 0)"
| "truthy (JStr s) = (s \<noteq> [])"
| "truthy (JArr xs) = True"
| "truthy (JObj fs) = True"

text \<open>
  \<open>v.key\<close> for a value that is neither \<open>null\<close> nor \<open>undefined\<close>, and for the keys
  read in this repository (\<open>error\<close>, \<open>url\<close>, \<open>gcsFileName\<close>, \<open>created_at\<close>,
  \<open>uploaded_at\<close>), which no primitive or array has: an object gives its field,
  everything else \<open>undefined\<close>.
\<close>

fun getProp :: "jsval \<Rightarrow> string \<Rightarrow> jsval" where
  "getProp (JObj fs) key = (case map_of fs key of Some v \<Rightarrow> v | None \<Rightarrow> JUndefined)"
| "getProp v key = JUndefined"

text \<open>Decimal digits of a number, as a template literal or \<open>toString()\<close> prints them.\<close>

fun showNat :: "nat \<Rightarrow> string" where
  "showNat n =
     (if n < 10 then [''0123456789'' ! n]
      else showNat (n div 10) @ [''0123456789'' ! (n mod 10)])"

definition showInt :: "int \<Rightarrow> string" where
  "showInt i = (if i < 0 then CHR ''-'' # showNat (nat (- i)) else showNat (nat i))"

fun joinWith :: "string \<Rightarrow> string list \<Rightarrow> string" where
  "joinWith sep [] = []"
| "joinWith sep [s] = s"
| "joinWith sep (s # t # rest) = s @ sep @ joinWith sep (t # rest)"

text \<open>
  \<open>String(v)\<close>, which \<open>new Error(v)\<close> applies to its argument to obtain the message.
\<close>

fun jsString :: "jsval \<Rightarrow> string" where
  "jsString JUndefined = ''undefined''"
| "jsString JNull = ''null''"
| "jsString (JBool b) = (if b then ''true'' else ''false'')"
| "jsString (JNum n) = showInt n"
| "jsString (JStr s) = s"
| "jsString (JArr xs) =
     joinWith '','' (map (\<lambda>x. if x = JNull \<or> x = JUndefined then [] else jsString x) xs)"
| "jsString (JObj fs) = ''[object Object]''"

text \<open>
  Thrown values. \<open>Error\<close> is \<open>new Error(message)\<close>; a \<open>SyntaxError\<close> comes from
  parsing a body that is not JSON and a \<open>TypeError\<close> from a failed \<open>fetch\<close> or from
  reading a property of \<open>null\<close>; both carry the message text the engine gives them.
  All three are instances of \<open>Error\<close>.
\<close>

datatype jsError = Error string | SyntaxError string | TypeError string

fun message :: "jsError \<Rightarrow> string" where
  "message (Error m) = m"
| "message (SyntaxError m) = m"
| "message (TypeError m) = m"

record jsFile =
  fileName :: string
  fileType :: string
  fileSize :: nat

datatype formValue = FormString string | FormFile jsFile

datatype requestBody =
    NoBody
  | JsonBody jsval
  | FormDataBody "(string \<times> formValue) list"
  | FileBody jsFile

record request =
  url :: string
  httpMethod :: string
  headers :: "(string \<times> string) list"
  body :: requestBody

text \<open>
  A response as the page sees it: \<open>bodyJson\<close> is what parsing \<open>bodyText\<close> as JSON
  gives, either the value or the message of the SyntaxError.
\<close>

record response =
  status :: nat
  statusText :: string
  bodyText :: string
  bodyJson :: "string + jsval"

text \<open>\<open>Response.ok\<close> of the Fetch standard.\<close>

definition ok :: "response \<Rightarrow> bool" where
  "ok r = (200 \<le> status r \<and> status r \<le> 299)"

text \<open>
  What an operation does besides returning: the session lookup, the HTTP requests, the
  reads of a response body, and the console and toast output, in order.
\<close>

datatype event =
    GetServerSession
  | Fetch request
  | ReadText
  | ReadJson
  | JsonParse
  | ConsoleError string "jsError option"
  | ToastError string
  | ToastSuccess string
  | ToastInfo string

text \<open>
  The surroundings of the page. \<open>fetchN n\<close> answers a request when \<open>n\<close> requests have
  been issued before it; an \<open>Inl\<close> answer is a rejected \<open>fetch\<close>. \<open>sessionToken\<close> is
  \<open>session?.user?.token\<close> of the session that \<open>getServerSession\<close> resolves to.
  \<open>urlEncode\<close> is the percent-encoding of \<open>URLSearchParams\<close>; \<open>nullPropertyText\<close> and
  \<open>notFunctionText\<close> are the engine's TypeError messages.
\<close>

record env =
  NEXT_PUBLIC_API_URL :: "string option"
  sessionToken :: "string option"
  fetchN :: "nat \<Rightarrow> request \<Rightarrow> jsError + response"
  urlEncode :: "string \<Rightarrow> string"
  nullPropertyText :: string
  notFunctionText :: string

text \<open>An asynchronous computation: the events it causes and its result or thrown error.\<close>

type_synonym 'a io = "event list \<times> (jsError + 'a)"

definition ret :: "'a \<Rightarrow> 'a io" where
  "ret x = ([], Inr x)"

definition throw :: "jsError \<Rightarrow> 'a io" where
  "throw e = ([], Inl e)"

definition emit :: "event \<Rightarrow> unit io" where
  "emit ev = ([ev], Inr ())"

definition bind :: "'a io \<Rightarrow> ('a \<Rightarrow> 'b io) \<Rightarrow> 'b io" where
  "bind m f =
     (case m of
        (evs, Inl e) \<Rightarrow> (evs, Inl e)
      | (evs, Inr x) \<Rightarrow> (case f x of (evs', r) \<Rightarrow> (evs @ evs', r)))"

text \<open>\<open>try { m } catch (e) { h e }\<close>.\<close>

definition tryCatch :: "'a io \<Rightarrow> (jsError \<Rightarrow> 'a io) \<Rightarrow> 'a io" where
  "tryCatch m h =
     (case m of
        (evs, Inl e) \<Rightarrow> (case h e of (evs', r) \<Rightarrow> (evs @ evs', r))
      | (evs, Inr x) \<Rightarrow> (evs, Inr x))"

definition isFetch :: "event \<Rightarrow> bool" where
  "isFetch ev = (case ev of Fetch r \<Rightarrow> True | _ \<Rightarrow> False)"

text \<open>The events that parse a response body as JSON.\<close>

definition isJsonRead :: "event \<Rightarrow> bool" where
  "isJsonRead ev = (ev = ReadJson \<or> ev = JsonParse)"

section \<open>The API client (src/lib/api/tasks.ts, src/lib/api/attachments.ts)\<close>

text \<open>Line 4 of both modules.\<close>

definition API_URL :: "env \<Rightarrow> string" where
  "API_URL env =
     (case NEXT_PUBLIC_API_URL env of
        None \<Rightarrow> ''http://localhost:5000/api/v1''
      | Some u \<Rightarrow> if u = [] then ''http://localhost:5000/api/v1'' else u)"

text \<open>
  The block that opens every function but \<open>deleteTask\<close> and \<open>uploadFileToGcs\<close>
  (for example tasks.ts lines 54-60): a missing or empty \<open>token\<close> is replaced by the
  token of the session, and the call throws when the session has none.
\<close>

definition tokenOrSession :: "env \<Rightarrow> string option \<Rightarrow> string io" where
  "tokenOrSession env token =
     (case token of
        Some t \<Rightarrow>
          if t \<noteq> [] then ret t
          else bind (emit GetServerSession) (\<lambda>_.
                 case sessionToken env of
                   None \<Rightarrow> throw (Error ''No authentication token'')
                 | Some s \<Rightarrow> if s = [] then throw (Error ''No authentication token'') else ret s)
      | None \<Rightarrow>
          bind (emit GetServerSession) (\<lambda>_.
            case sessionToken env of
              None \<Rightarrow> throw (Error ''No authentication token'')
            | Some s \<Rightarrow> if s = [] then throw (Error ''No authentication token'') else ret s))"

definition doFetch :: "env \<Rightarrow> nat \<Rightarrow> request \<Rightarrow> response io" where
  "doFetch env n req = ([Fetch req], fetchN env n req)"

text \<open>\<open>response.text()\<close>, \<open>response.json()\<close> and \<open>JSON.parse\<close> of the text read before.\<close>

definition readText :: "response \<Rightarrow> string io" where
  "readText r = ([ReadText], Inr (bodyText r))"

definition readJson :: "response \<Rightarrow> jsval io" where
  "readJson r =
     ([ReadJson], case bodyJson r of Inl m \<Rightarrow> Inl (SyntaxError m) | Inr v \<Rightarrow> Inr v)"

definition jsonParse :: "response \<Rightarrow> jsval io" where
  "jsonParse r =
     ([JsonParse], case bodyJson r of Inl m \<Rightarrow> Inl (SyntaxError m) | Inr v \<Rightarrow> Inr v)"

text \<open>\<open>errorData?.error\<close> and \<open>errorData.error\<close>.\<close>

definition optProp :: "jsval \<Rightarrow> string \<Rightarrow> jsval" where
  "optProp v key = (if v = JNull \<or> v = JUndefined then JUndefined else getProp v key)"

definition propOf :: "env \<Rightarrow> jsval \<Rightarrow> string \<Rightarrow> jsval io" where
  "propOf env v key =
     (if v = JNull \<or> v = JUndefined then throw (TypeError (nullPropertyText env))
      else ret (getProp v key))"

text \<open>\<open>new Error(v || fallback)\<close>.\<close>

definition errorOr :: "jsval \<Rightarrow> string \<Rightarrow> jsError" where
  "errorOr v fallback = Error (if truthy v then jsString v else fallback)"

text \<open>
  The three ways a non-OK response is turned into an exception.

  tasks.ts (for example lines 71-82): the body is read as text and parsed inside a
  \<open>try\<close>; a body that is not JSON gives a message with the status line and the text.
\<close>

definition statusLine :: "string \<Rightarrow> response \<Rightarrow> string" where
  "statusLine what r = what @ '': '' @ showNat (status r) @ '' '' @ statusText r"

definition errorFromText :: "string \<Rightarrow> response \<Rightarrow> 'a io" where
  "errorFromText what r =
     bind (readText r) (\<lambda>errorText.
       bind (tryCatch (jsonParse r)
               (\<lambda>_. throw (Error (statusLine what r @ ''. Server responded with: '' @ errorText))))
         (\<lambda>errorData. throw (errorOr (optProp errorData ''error'') (statusLine what r))))"

text \<open>
  \<open>uploadAttachment\<close> and \<open>deleteAttachment\<close> (attachments.ts lines 92-100 and 242-250):
  \<open>response.json()\<close> inside a \<open>try\<close>.
\<close>

definition errorFromJsonTry :: "string \<Rightarrow> response \<Rightarrow> 'a io" where
  "errorFromJsonTry what r =
     bind (tryCatch (readJson r) (\<lambda>_. throw (Error (statusLine what r))))
       (\<lambda>errorData. throw (errorOr (optProp errorData ''error'') (statusLine what r)))"

text \<open>
  The other functions of attachments.ts (for example lines 54-57):
  \<open>const errorData = await response.json(); throw new Error(errorData.error || fallback)\<close>,
  with no \<open>try\<close> around the parse.
\<close>

definition errorFromJson :: "env \<Rightarrow> string \<Rightarrow> response \<Rightarrow> 'a io" where
  "errorFromJson env fallback r =
     bind (readJson r) (\<lambda>errorData.
       bind (propOf env errorData ''error'') (\<lambda>e. throw (errorOr e fallback)))"

text \<open>
  The two ways an OK response is returned: \<open>return response.json()\<close>, and the
  \<open>try\<close> of tasks.ts lines 84-89 that logs and throws its own error.
\<close>

definition jsonOrFail :: "string \<Rightarrow> response \<Rightarrow> jsval io" where
  "jsonOrFail fname r =
     tryCatch (readJson r)
       (\<lambda>_. bind (emit (ConsoleError
                      (''Failed to parse successful response JSON ('' @ fname @ ''):'') None))
          (\<lambda>_. throw (Error (''Received OK status ('' @ showNat (status r)
                               @ '') but failed to parse JSON response.''))))"

text \<open>The same in attachments.ts (lines 102-107), where the caught error is logged too.\<close>

definition jsonOrFailLogged :: "string \<Rightarrow> response \<Rightarrow> jsval io" where
  "jsonOrFailLogged fname r =
     tryCatch (readJson r)
       (\<lambda>jsonError.
          bind (emit (ConsoleError
                  (''Failed to parse successful response JSON ('' @ fname @ ''):'') (Some jsonError)))
            (\<lambda>_. throw (Error (''Received OK status ('' @ showNat (status r)
                                 @ '') but failed to parse JSON response.''))))"

text \<open>The skeleton shared by the functions: token, one request, the response handler.\<close>

definition resource ::
  "env \<Rightarrow> nat \<Rightarrow> string option \<Rightarrow> (string \<Rightarrow> request) \<Rightarrow> (response \<Rightarrow> 'a io) \<Rightarrow> 'a io" where
  "resource env n token mkRequest handler =
     bind (tokenOrSession env token) (\<lambda>tok. bind (doFetch env n (mkRequest tok)) handler)"

definition bearerJson :: "string \<Rightarrow> (string \<times> string) list" where
  "bearerJson tok = [(''Authorization'', ''Bearer '' @ tok), (''Content-Type'', ''application/json'')]"

definition searchParams :: "env \<Rightarrow> (string \<times> string) list \<Rightarrow> string" where
  "searchParams env ps = joinWith ''&'' (map (\<lambda>(k, v). urlEncode env k @ ''='' @ urlEncode env v) ps)"

subsection \<open>tasks.ts\<close>

definition createTask :: "env \<Rightarrow> nat \<Rightarrow> jsval \<Rightarrow> string option \<Rightarrow> jsval io" where
  "createTask env n data token =
     resource env n token
       (\<lambda>tok. \<lparr>url = API_URL env @ ''/tasks'', httpMethod = ''POST'',
               headers = bearerJson tok, body = JsonBody data\<rparr>)
       (\<lambda>r. if \<not> ok r then errorFromText ''Failed to create task'' r
            else jsonOrFail ''createTask'' r)"

definition getAllTasks ::
  "env \<Rightarrow> nat \<Rightarrow> string \<Rightarrow> string option \<Rightarrow> int option \<Rightarrow> int option \<Rightarrow> jsval io" where
  "getAllTasks env n projectId token limit offset =
     resource env n token
       (\<lambda>tok. \<lparr>url = API_URL env @ ''/tasks?'' @ searchParams env
                   [(''projectId'', projectId),
                    (''limit'', showInt (case limit of None \<Rightarrow> 20 | Some l \<Rightarrow> l)),
                    (''offset'', showInt (case offset of None \<Rightarrow> 0 | Some k \<Rightarrow> k))],
               httpMethod = ''GET'', headers = bearerJson tok, body = NoBody\<rparr>)
       (\<lambda>r. if \<not> ok r then errorFromText ''Failed to fetch tasks'' r
            else jsonOrFail ''getAllTasks'' r)"

definition getTask :: "env \<Rightarrow> nat \<Rightarrow> string \<Rightarrow> string option \<Rightarrow> jsval io" where
  "getTask env n ident token =
     resource env n token
       (\<lambda>tok. \<lparr>url = API_URL env @ ''/tasks/'' @ ident, httpMethod = ''GET'',
               headers = bearerJson tok, body = NoBody\<rparr>)
       (\<lambda>r. if \<not> ok r then errorFromText ''Failed to fetch task'' r
            else jsonOrFail ''getTask'' r)"

definition updateTask :: "env \<Rightarrow> nat \<Rightarrow> string \<Rightarrow> jsval \<Rightarrow> string option \<Rightarrow> jsval io" where
  "updateTask env n taskId taskData token =
     resource env n token
       (\<lambda>tok. \<lparr>url = API_URL env @ ''/tasks/'' @ taskId, httpMethod = ''PUT'',
               headers = [(''Content-Type'', ''application/json''),
                          (''Authorization'', ''Bearer '' @ tok)],
               body = JsonBody taskData\<rparr>)
       (\<lambda>r. if \<not> ok r then errorFromText ''Failed to update task'' r
            else jsonOrFail ''updateTask'' r)"

text \<open>
  \<open>deleteTask\<close> (lines 236-274) has its own guard instead of the session lookup. It
  returns nothing; \<open>JUndefined\<close> is the value of the resolved promise.
\<close>

definition deleteTask :: "env \<Rightarrow> nat \<Rightarrow> string \<Rightarrow> string option \<Rightarrow> jsval io" where
  "deleteTask env n taskId token =
     bind (case token of
             None \<Rightarrow> throw (Error ''Authentication token is required.'')
           | Some t \<Rightarrow> if t = [] then throw (Error ''Authentication token is required.'') else ret t)
       (\<lambda>tok.
          bind (doFetch env n
                  \<lparr>url = API_URL env @ ''/tasks/'' @ taskId, httpMethod = ''DELETE'',
                   headers = [(''Authorization'', ''Bearer '' @ tok)], body = NoBody\<rparr>)
            (\<lambda>r. if \<not> ok r then errorFromText ''Failed to delete task'' r
                 else if status r = 204 then ret JUndefined
                 else bind (jsonOrFail ''deleteTask'' r) (\<lambda>_. ret JUndefined)))"

definition getTaskAssignees :: "env \<Rightarrow> nat \<Rightarrow> string \<Rightarrow> string option \<Rightarrow> jsval io" where
  "getTaskAssignees env n taskId token =
     resource env n token
       (\<lambda>tok. \<lparr>url = API_URL env @ ''/tasks/'' @ taskId @ ''/assignees'', httpMethod = ''GET'',
               headers = bearerJson tok, body = NoBody\<rparr>)
       (\<lambda>r. if \<not> ok r then errorFromText ''Failed to fetch task assignees'' r
            else jsonOrFail ''getTaskAssignees'' r)"

definition assignUserToTask ::
  "env \<Rightarrow> nat \<Rightarrow> string \<Rightarrow> string \<Rightarrow> string option \<Rightarrow> jsval io" where
  "assignUserToTask env n taskId userId token =
     resource env n token
       (\<lambda>tok. \<lparr>url = API_URL env @ ''/tasks/'' @ taskId @ ''/assignees'', httpMethod = ''POST'',
               headers = bearerJson tok, body = JsonBody (JObj [(''userId'', JStr userId)])\<rparr>)
       (\<lambda>r. if \<not> ok r then errorFromText ''Failed to assign user to task'' r
            else jsonOrFail ''assignUserToTask'' r)"

definition unassignUserFromTask ::
  "env \<Rightarrow> nat \<Rightarrow> string \<Rightarrow> string \<Rightarrow> string option \<Rightarrow> jsval io" where
  "unassignUserFromTask env n taskId userId token =
     resource env n token
       (\<lambda>tok. \<lparr>url = API_URL env @ ''/tasks/'' @ taskId @ ''/assignees/'' @ userId,
               httpMethod = ''DELETE'', headers = bearerJson tok, body = NoBody\<rparr>)
       (\<lambda>r. if \<not> ok r then errorFromText ''Failed to unassign user from task'' r
            else if status r = 204
              then ret (JObj [(''message'', JStr ''Task unassigned successfully'')])
            else jsonOrFail ''unassignUserFromTask'' r)"

definition getUserTasks ::
  "env \<Rightarrow> nat \<Rightarrow> string option \<Rightarrow> int option \<Rightarrow> int option \<Rightarrow> jsval io" where
  "getUserTasks env n token limit offset =
     resource env n token
       (\<lambda>tok. \<lparr>url = API_URL env @ ''/tasks/me?'' @ searchParams env
                   [(''limit'', showInt (case limit of None \<Rightarrow> 20 | Some l \<Rightarrow> l)),
                    (''offset'', showInt (case offset of None \<Rightarrow> 0 | Some k \<Rightarrow> k))],
               httpMethod = ''GET'', headers = bearerJson tok, body = NoBody\<rparr>)
       (\<lambda>r. if \<not> ok r then errorFromText ''Failed to fetch user tasks'' r
            else jsonOrFail ''getUserTasks'' r)"

subsection \<open>attachments.ts\<close>

definition createAttachment :: "env \<Rightarrow> nat \<Rightarrow> jsval \<Rightarrow> string option \<Rightarrow> jsval io" where
  "createAttachment env n data token =
     resource env n token
       (\<lambda>tok. \<lparr>url = API_URL env @ ''/attachments'', httpMethod = ''POST'',
               headers = bearerJson tok, body = JsonBody data\<rparr>)
       (\<lambda>r. if \<not> ok r then errorFromJson env ''Failed to create attachment'' r
            else readJson r)"

text \<open>
  \<open>uploadAttachment\<close> adds the task id to the form when the form has none; the form
  is an association list in insertion order.
\<close>

definition uploadAttachment ::
  "env \<Rightarrow> nat \<Rightarrow> string \<Rightarrow> (string \<times> formValue) list \<Rightarrow> string option \<Rightarrow> jsval io" where
  "uploadAttachment env n taskId formData token =
     resource env n token
       (\<lambda>tok. \<lparr>url = API_URL env @ ''/attachments'', httpMethod = ''POST'',
               headers = [(''Authorization'', ''Bearer '' @ tok)],
               body = FormDataBody
                 (if map_of formData ''taskId'' = None
                  then formData @ [(''taskId'', FormString taskId)] else formData)\<rparr>)
       (\<lambda>r. if \<not> ok r then errorFromJsonTry ''Failed to upload attachment'' r
            else jsonOrFailLogged ''uploadAttachment'' r)"

definition getTaskAttachments :: "env \<Rightarrow> nat \<Rightarrow> string \<Rightarrow> string option \<Rightarrow> jsval io" where
  "getTaskAttachments env n taskId token =
     resource env n token
       (\<lambda>tok. \<lparr>url = API_URL env @ ''/attachments?taskId='' @ taskId, httpMethod = ''GET'',
               headers = bearerJson tok, body = NoBody\<rparr>)
       (\<lambda>r. if \<not> ok r then errorFromJson env ''Failed to fetch attachments'' r
            else readJson r)"

definition getAllAttachments :: "env \<Rightarrow> nat \<Rightarrow> string option \<Rightarrow> jsval io" where
  "getAllAttachments env n token =
     resource env n token
       (\<lambda>tok. \<lparr>url = API_URL env @ ''/attachments'', httpMethod = ''GET'',
               headers = bearerJson tok, body = NoBody\<rparr>)
       (\<lambda>r. if \<not> ok r then errorFromJson env ''Failed to fetch attachments'' r
            else readJson r)"

definition getAttachment :: "env \<Rightarrow> nat \<Rightarrow> string \<Rightarrow> string option \<Rightarrow> jsval io" where
  "getAttachment env n ident token =
     resource env n token
       (\<lambda>tok. \<lparr>url = API_URL env @ ''/attachments/'' @ ident, httpMethod = ''GET'',
               headers = bearerJson tok, body = NoBody\<rparr>)
       (\<lambda>r. if \<not> ok r then errorFromJson env ''Failed to fetch attachment'' r
            else readJson r)"

definition updateAttachment ::
  "env \<Rightarrow> nat \<Rightarrow> string \<Rightarrow> jsval \<Rightarrow> string option \<Rightarrow> jsval io" where
  "updateAttachment env n ident data token =
     resource env n token
       (\<lambda>tok. \<lparr>url = API_URL env @ ''/attachments/'' @ ident, httpMethod = ''PUT'',
               headers = bearerJson tok, body = JsonBody data\<rparr>)
       (\<lambda>r. if \<not> ok r then errorFromJson env ''Failed to update attachment'' r
            else readJson r)"

definition deleteAttachment :: "env \<Rightarrow> nat \<Rightarrow> string \<Rightarrow> string option \<Rightarrow> jsval io" where
  "deleteAttachment env n attachmentId token =
     resource env n token
       (\<lambda>tok. \<lparr>url = API_URL env @ ''/attachments/'' @ attachmentId, httpMethod = ''DELETE'',
               headers = [(''Authorization'', ''Bearer '' @ tok)], body = NoBody\<rparr>)
       (\<lambda>r. if \<not> ok r then errorFromJsonTry ''Failed to delete attachment'' r
            else if status r = 204
              then ret (JObj [(''message'', JStr ''Attachment deleted successfully'')])
            else jsonOrFailLogged ''deleteAttachment'' r)"

definition getAttachmentDownloadUrl :: "env \<Rightarrow> string \<Rightarrow> string" where
  "getAttachmentDownloadUrl env attachmentId =
     API_URL env @ ''/attachments/'' @ attachmentId @ ''/download''"

definition getAttachmentPreviewUrl :: "env \<Rightarrow> string \<Rightarrow> string" where
  "getAttachmentPreviewUrl env attachmentId =
     API_URL env @ ''/attachments/'' @ attachmentId @ ''/download?inline=true''"

definition getAttachmentSignedDownloadUrl ::
  "env \<Rightarrow> nat \<Rightarrow> string \<Rightarrow> string option \<Rightarrow> jsval io" where
  "getAttachmentSignedDownloadUrl env n attachmentId token =
     resource env n token
       (\<lambda>tok. \<lparr>url = API_URL env @ ''/attachments/'' @ attachmentId @ ''/signed-url'',
               httpMethod = ''GET'', headers = bearerJson tok, body = NoBody\<rparr>)
       (\<lambda>r. if \<not> ok r then errorFromJson env ''Failed to get signed download URL'' r
            else bind (readJson r) (\<lambda>data. propOf env data ''url''))"

definition getSignedUploadUrl ::
  "env \<Rightarrow> nat \<Rightarrow> string \<Rightarrow> string \<Rightarrow> string \<Rightarrow> string option \<Rightarrow> jsval io" where
  "getSignedUploadUrl env n taskId fname ftype token =
     resource env n token
       (\<lambda>tok. \<lparr>url = API_URL env @ ''/attachments/signed-upload-url'', httpMethod = ''POST'',
               headers = bearerJson tok,
               body = JsonBody (JObj [(''taskId'', JStr taskId), (''fileName'', JStr fname),
                                      (''fileType'', JStr ftype)])\<rparr>)
       (\<lambda>r. if \<not> ok r then errorFromJson env ''Failed to get signed upload URL'' r
            else readJson r)"

text \<open>
  \<open>uploadFileToGcs\<close> (lines 336-345) sends no token and returns the response as it
  is, OK or not. The signed URL is whatever the backend answered; \<open>fetch\<close> turns it
  into a string.
\<close>

definition uploadFileToGcs :: "env \<Rightarrow> nat \<Rightarrow> jsval \<Rightarrow> jsFile \<Rightarrow> response io" where
  "uploadFileToGcs env n signedUrl f =
     doFetch env n
       \<lparr>url = jsString signedUrl, httpMethod = ''PUT'',
        headers = [(''Content-Type'', fileType f), (''Content-Length'', showNat (fileSize f))],
        body = FileBody f\<rparr>"

definition createAttachmentRecord ::
  "env \<Rightarrow> nat \<Rightarrow> string \<Rightarrow> string \<Rightarrow> jsval \<Rightarrow> string \<Rightarrow> nat \<Rightarrow> string option \<Rightarrow> jsval io" where
  "createAttachmentRecord env n taskId fname gcsFileName ftype fsize token =
     resource env n token
       (\<lambda>tok. \<lparr>url = API_URL env @ ''/attachments/record'', httpMethod = ''POST'',
               headers = bearerJson tok,
               body = JsonBody (JObj [(''taskId'', JStr taskId), (''fileName'', JStr fname),
                                      (''fileType'', JStr ftype), (''gcsFileName'', gcsFileName),
                                      (''fileSize'', JNum (int fsize))])\<rparr>)
       (\<lambda>r. if \<not> ok r then errorFromJson env ''Failed to create attachment record'' r
            else readJson r)"

subsection \<open>Registration (src/unnamed/part_002)\<close>

text \<open>
  \<open>userRegister\<close> takes five arguments and sends three of them. The environment
  variable is used without a default: a template literal prints a missing one as
  \<open>undefined\<close>.
\<close>

definition userRegister ::
  "env \<Rightarrow> nat \<Rightarrow> string \<Rightarrow> string \<Rightarrow> string \<Rightarrow> string \<Rightarrow> string \<Rightarrow> jsval io" where
  "userRegister env n name telephone address email password =
     bind (doFetch env n
             \<lparr>url = (case NEXT_PUBLIC_API_URL env of None \<Rightarrow> ''undefined'' | Some u \<Rightarrow> u)
                     @ ''/auth/register'',
              httpMethod = ''POST'',
              headers = [(''Content-Type'', ''application/json'')],
              body = JsonBody (JObj [(''name'', JStr name), (''email'', JStr email),
                                     (''password'', JStr password)])\<rparr>)
       (\<lambda>r. if \<not> ok r then throw (Error ''Failed to register'') else readJson r)"

subsection \<open>The functions that take a token, under one name\<close>

text \<open>
  A call of one of the eighteen functions of the two modules that have a \<open>token\<close>
  parameter, with its other arguments.
\<close>

datatype apiCall =
    CreateTask jsval
  | GetAllTasks string "int option" "int option"
  | GetTask string
  | UpdateTask string jsval
  | DeleteTask string
  | GetTaskAssignees string
  | AssignUserToTask string string
  | UnassignUserFromTask string string
  | GetUserTasks "int option" "int option"
  | CreateAttachment jsval
  | UploadAttachment string "(string \<times> formValue) list"
  | GetTaskAttachments string
  | GetAllAttachments
  | GetAttachment string
  | UpdateAttachment string jsval
  | DeleteAttachment string
  | GetAttachmentSignedDownloadUrl string
  | GetSignedUploadUrl string string string
  | CreateAttachmentRecord string string jsval string nat

fun call :: "env \<Rightarrow> nat \<Rightarrow> apiCall \<Rightarrow> string option \<Rightarrow> jsval io" where
  "call env n (CreateTask d) token = createTask env n d token"
| "call env n (GetAllTasks p l k) token = getAllTasks env n p token l k"
| "call env n (GetTask i) token = getTask env n i token"
| "call env n (UpdateTask i d) token = updateTask env n i d token"
| "call env n (DeleteTask i) token = deleteTask env n i token"
| "call env n (GetTaskAssignees i) token = getTaskAssignees env n i token"
| "call env n (AssignUserToTask i u) token = assignUserToTask env n i u token"
| "call env n (UnassignUserFromTask i u) token = unassignUserFromTask env n i u token"
| "call env n (GetUserTasks l k) token = getUserTasks env n token l k"
| "call env n (CreateAttachment d) token = createAttachment env n d token"
| "call env n (UploadAttachment i f) token = uploadAttachment env n i f token"
| "call env n (GetTaskAttachments i) token = getTaskAttachments env n i token"
| "call env n GetAllAttachments token = getAllAttachments env n token"
| "call env n (GetAttachment i) token = getAttachment env n i token"
| "call env n (UpdateAttachment i d) token = updateAttachment env n i d token"
| "call env n (DeleteAttachment i) token = deleteAttachment env n i token"
| "call env n (GetAttachmentSignedDownloadUrl i) token =
     getAttachmentSignedDownloadUrl env n i token"
| "call env n (GetSignedUploadUrl i f t) token = getSignedUploadUrl env n i f t token"
| "call env n (CreateAttachmentRecord i f g t s) token =
     createAttachmentRecord env n i f g t s token"

text \<open>
  Events among which there is neither a request nor a session lookup, and the
  \<open>Authorization\<close> header of a request.
\<close>

definition quiet :: "event list \<Rightarrow> bool" where
  "quiet evs = (\<not> list_ex isFetch evs \<and> \<not> list_ex (\<lambda>e. e = GetServerSession) evs)"

definition authorization :: "request \<Rightarrow> string option" where
  "authorization req = map_of (headers req) ''Authorization''"

section \<open>The attachments component (src/components/task-attachments.tsx)\<close>

text \<open>Lines 56-61. A \<open>null\<close> and an empty file type are both falsy.\<close>

definition startsWith :: "string \<Rightarrow> string \<Rightarrow> bool" where
  "startsWith s p = prefix p s"

definition canPreviewType :: "string option \<Rightarrow> bool" where
  "canPreviewType ft =
     (case ft of
        None \<Rightarrow> False
      | Some t \<Rightarrow>
          if t = [] then False
          else list_ex (\<lambda>p. startsWith t p) [''image/'', ''video/'', ''application/pdf''])"

text \<open>The \<open>Attachment\<close> interface of attachments.ts (lines 6-18).\<close>

record attachment =
  attachment_id :: string
  task_id :: string
  file_name :: string
  file_path :: string
  file_type :: string
  file_size :: "nat option"
  uploaded_at :: string
  created_at :: string
  file_url :: "string option"

text \<open>
  The state hooks of \<open>TaskAttachments\<close> (lines 64-81). The list holds the objects
  that the backend returned, which nothing checks against the interface at run time.
  \<open>fileInputValue\<close> is the value of the file input behind \<open>fileInputRef\<close>, \<open>None\<close>
  while the ref is empty.
\<close>

record attachmentsState =
  attachments :: "jsval list"
  isLoading :: bool
  error :: "string option"
  selectedFile :: "jsFile option"
  isUploading :: bool
  uploadProgress :: nat
  fileInputValue :: "string option"
  deleteAlertOpen :: bool
  deletingAttachmentId :: "string option"
  isPreviewModalOpen :: bool
  previewAttachment :: "attachment option"

text \<open>\<open>!token\<close> for the optional \<open>token\<close> prop.\<close>

definition noToken :: "string option \<Rightarrow> bool" where
  "noToken token = (case token of None \<Rightarrow> True | Some t \<Rightarrow> t = [])"

text \<open>
  The callback of \<open>data.map\<close> in \<open>fetchAttachments\<close> (lines 89-92):
  \<open>{...att, created_at: att.created_at || att.uploaded_at}\<close>. Spreading a string or an
  array copies its indexed elements, spreading another primitive copies nothing, and
  reading \<open>created_at\<close> from \<open>null\<close> or \<open>undefined\<close> throws.
\<close>

definition setField :: "(string \<times> jsval) list \<Rightarrow> string \<Rightarrow> jsval \<Rightarrow> (string \<times> jsval) list" where
  "setField fs key v =
     (if map_of fs key = None then fs @ [(key, v)]
      else map (\<lambda>(k, w). if k = key then (k, v) else (k, w)) fs)"

fun spread :: "jsval \<Rightarrow> (string \<times> jsval) list" where
  "spread (JObj fs) = fs"
| "spread (JArr xs) = zip (map showNat [0..<length xs]) xs"
| "spread (JStr s) = zip (map showNat [0..<length s]) (map (\<lambda>c. JStr [c]) s)"
| "spread v = []"

definition formatAttachment :: "env \<Rightarrow> jsval \<Rightarrow> jsval io" where
  "formatAttachment env att =
     bind (propOf env att ''created_at'') (\<lambda>c.
       ret (JObj (setField (spread att) ''created_at''
                    (if truthy c then c else getProp att ''uploaded_at''))))"

fun mapIO :: "('a \<Rightarrow> 'b io) \<Rightarrow> 'a list \<Rightarrow> 'b list io" where
  "mapIO f [] = ret []"
| "mapIO f (x # xs) = bind (f x) (\<lambda>y. bind (mapIO f xs) (\<lambda>ys. ret (y # ys)))"

text \<open>\<open>data.map(...)\<close>: only an array has \<open>map\<close>.\<close>

definition formatAll :: "env \<Rightarrow> jsval \<Rightarrow> jsval list io" where
  "formatAll env data =
     (case data of
        JArr xs \<Rightarrow> mapIO (formatAttachment env) xs
      | JNull \<Rightarrow> throw (TypeError (nullPropertyText env))
      | JUndefined \<Rightarrow> throw (TypeError (nullPropertyText env))
      | _ \<Rightarrow> throw (TypeError (notFunctionText env)))"

text \<open>
  The handlers below take the props \<open>taskId\<close> and \<open>token\<close>, the number \<open>n\<close> of
  requests issued before, and the state, and give the events and the state once every
  promise they started has settled. Each of them catches what it awaits, so none throws.

  \<open>fetchAttachments\<close> (lines 83-103).
\<close>

definition fetchAttachments ::
  "env \<Rightarrow> nat \<Rightarrow> string \<Rightarrow> string option \<Rightarrow> attachmentsState
     \<Rightarrow> event list \<times> attachmentsState" where
  "fetchAttachments env n taskId token st =
     (if noToken token then ([], st)
      else
        let st1 = st\<lparr>isLoading := True, error := None\<rparr> in
        case bind (getTaskAttachments env n taskId token) (formatAll env) of
          (evs, Inr formattedData) \<Rightarrow>
            (evs, st1\<lparr>attachments := formattedData, isLoading := False\<rparr>)
        | (evs, Inl err) \<Rightarrow>
            (evs @ [ConsoleError ''Failed to fetch attachments:'' (Some err),
                    ToastError ''Failed to load attachments.''],
             st1\<lparr>error := Some (message err), isLoading := False\<rparr>))"

text \<open>
  The destructuring \<open>const { url, gcsFileName } = ...\<close> of line 127, which throws on
  \<open>null\<close>.
\<close>

definition urlAndName :: "env \<Rightarrow> jsval \<Rightarrow> (jsval \<times> jsval) io" where
  "urlAndName env res =
     (if res = JNull \<or> res = JUndefined then throw (TypeError (nullPropertyText env))
      else ret (getProp res ''url'', getProp res ''gcsFileName''))"

text \<open>
  The \<open>try\<close> block of \<open>handleFileUpload\<close> up to the success toast (lines 126-147):
  the signed URL, the upload to storage, the attachment record.
\<close>

definition uploadSteps :: "env \<Rightarrow> nat \<Rightarrow> string \<Rightarrow> string option \<Rightarrow> jsFile \<Rightarrow> unit io" where
  "uploadSteps env n taskId token f =
     bind (getSignedUploadUrl env n taskId (fileName f) (fileType f) token) (\<lambda>res.
     bind (urlAndName env res) (\<lambda>(signedUrl, gcsFileName).
     bind (uploadFileToGcs env (n + 1) signedUrl f) (\<lambda>uploadRes.
       if \<not> ok uploadRes then throw (Error ''Failed to upload file to storage.'')
       else
         bind (createAttachmentRecord env (n + 2) taskId (fileName f) gcsFileName
                 (fileType f) (fileSize f) token) (\<lambda>_.
         emit (ToastSuccess (''Attachment \"'' @ fileName f @ ''\" uploaded successfully.''))))))"

text \<open>
  \<open>handleFileUpload\<close> (lines 117-164). After a success the list is fetched again; the
  call is not awaited, and its state updates touch other fields than the \<open>finally\<close>
  block does, so the order of the two does not show in the final state.
\<close>

definition handleFileUpload ::
  "env \<Rightarrow> nat \<Rightarrow> string \<Rightarrow> string option \<Rightarrow> attachmentsState
     \<Rightarrow> event list \<times> attachmentsState" where
  "handleFileUpload env n taskId token st =
     (case selectedFile st of
        None \<Rightarrow> ([ToastError ''Please select a file to upload.''], st)
      | Some f \<Rightarrow>
          if noToken token then ([ToastError ''Please select a file to upload.''], st)
          else
            let st1 = st\<lparr>isUploading := True, uploadProgress := 0\<rparr> in
            case uploadSteps env n taskId token f of
              (evs, Inr _) \<Rightarrow>
                let st2 = st1\<lparr>selectedFile := None,
                               fileInputValue := map_option (\<lambda>_. []) (fileInputValue st1)\<rparr>;
                    (evs', st3) = fetchAttachments env (n + 3) taskId token st2
                in (evs @ evs', st3\<lparr>isUploading := False, uploadProgress := 0\<rparr>)
            | (evs, Inl err) \<Rightarrow>
                (evs @ [ConsoleError ''Failed to upload attachment:'' (Some err),
                        ToastError (''Failed to upload attachment: '' @ message err)],
                 st1\<lparr>isUploading := False, uploadProgress := 0\<rparr>))"

text \<open>\<open>handleDeleteClick\<close> (lines 166-169) and \<open>confirmDelete\<close> (lines 171-189).\<close>

definition handleDeleteClick :: "string \<Rightarrow> attachmentsState \<Rightarrow> attachmentsState" where
  "handleDeleteClick attachmentId st =
     st\<lparr>deletingAttachmentId := Some attachmentId, deleteAlertOpen := True\<rparr>"

definition confirmDelete ::
  "env \<Rightarrow> nat \<Rightarrow> string \<Rightarrow> string option \<Rightarrow> attachmentsState
     \<Rightarrow> event list \<times> attachmentsState" where
  "confirmDelete env n taskId token st =
     (case deletingAttachmentId st of
        None \<Rightarrow> ([], st)
      | Some pending \<Rightarrow>
          if pending = [] \<or> noToken token then ([], st)
          else
            case deleteAttachment env n pending token of
              (evs, Inr _) \<Rightarrow>
                let (evs', st1) = fetchAttachments env (n + 1) taskId token st
                in (evs @ [ToastSuccess ''Attachment deleted successfully.''] @ evs',
                    st1\<lparr>deletingAttachmentId := None, deleteAlertOpen := False\<rparr>)
            | (evs, Inl err) \<Rightarrow>
                (evs @ [ConsoleError ''Failed to delete attachment:'' (Some err),
                        ToastError (''Failed to delete attachment: '' @ message err)],
                 st\<lparr>deletingAttachmentId := None, deleteAlertOpen := False\<rparr>))"

text \<open>\<open>handlePreviewClick\<close> (lines 191-198).\<close>

definition handlePreviewClick ::
  "attachment \<Rightarrow> attachmentsState \<Rightarrow> event list \<times> attachmentsState" where
  "handlePreviewClick att st =
     (if canPreviewType (Some (file_type att))
      then ([], st\<lparr>previewAttachment := Some att, isPreviewModalOpen := True\<rparr>)
      else ([ToastInfo ''Preview is not available for this file type.''], st))"

text \<open>
  The request that \<open>createAttachmentRecord\<close> issues: a POST to \<open>/attachments/record\<close>.
\<close>

definition isRecordRequest :: "env \<Rightarrow> event \<Rightarrow> bool" where
  "isRecordRequest env ev =
     (case ev of
        Fetch r \<Rightarrow> url r = API_URL env @ ''/attachments/record'' \<and> httpMethod r = ''POST''
      | _ \<Rightarrow> False)"

section \<open>Concrete surroundings used in the examples\<close>

text \<open>A network on which every request is rejected, and no session.\<close>

definition offlineEnv :: env where
  "offlineEnv =
     \<lparr>NEXT_PUBLIC_API_URL = None, sessionToken = None,
      fetchN = (\<lambda>n req. Inl (TypeError ''Failed to fetch'')),
      urlEncode = (\<lambda>s. s), nullPropertyText = ''Cannot read properties of null'',
      notFunctionText = ''is not a function''\<rparr>"

text \<open>A backend that answers every request with the same response; a session with a token.\<close>

definition constEnv :: "response \<Rightarrow> env" where
  "constEnv r =
     \<lparr>NEXT_PUBLIC_API_URL = None, sessionToken = Some ''session-token'',
      fetchN = (\<lambda>n req. Inr r),
      urlEncode = (\<lambda>s. s), nullPropertyText = ''Cannot read properties of null'',
      notFunctionText = ''is not a function''\<rparr>"

definition noContent :: response where
  "noContent =
     \<lparr>status = 204, statusText = ''No Content'', bodyText = [],
      bodyJson = Inl ''Unexpected end of JSON input''\<rparr>"

definition htmlError :: response where
  "htmlError =
     \<lparr>status = 500, statusText = ''Internal Server Error'',
      bodyText = ''<html>Internal Server Error</html>'',
      bodyJson = Inl ''Unexpected token <''\<rparr>"

definition forbidden :: response where
  "forbidden =
     \<lparr>status = 403, statusText = ''Forbidden'', bodyText = ''<Error>AccessDenied</Error>'',
      bodyJson = Inl ''Unexpected token <''\<rparr>"

definition signedUrlResponse :: response where
  "signedUrlResponse =
     \<lparr>status = 200, statusText = ''OK'',
      bodyText = ''{\"url\":\"https://storage.example/put\",\"gcsFileName\":\"obj1\"}'',
      bodyJson = Inr (JObj [(''url'', JStr ''https://storage.example/put''),
                            (''gcsFileName'', JStr ''obj1'')])\<rparr>"

text \<open>
  A backend that hands out a signed URL for the first request, and a storage service
  that refuses what comes after.
\<close>

definition uploadEnv :: env where
  "uploadEnv =
     \<lparr>NEXT_PUBLIC_API_URL = None, sessionToken = None,
      fetchN = (\<lambda>n req. if n = 0 then Inr signedUrlResponse else Inr forbidden),
      urlEncode = (\<lambda>s. s), nullPropertyText = ''Cannot read properties of null'',
      notFunctionText = ''is not a function''\<rparr>"

definition reportPdf :: jsFile where
  "reportPdf = \<lparr>fileName = ''report.pdf'', fileType = ''application/pdf'', fileSize = 7\<rparr>"

text \<open>The component before anything was loaded or selected.\<close>

definition idleState :: attachmentsState where
  "idleState =
     \<lparr>attachments = [], isLoading = False, error = None, selectedFile = None,
      isUploading = False, uploadProgress = 0, fileInputValue = None, deleteAlertOpen = False,
      deletingAttachmentId = None, isPreviewModalOpen = False, previewAttachment = None\<rparr>"

section \<open>Properties of the page window\<close>

lemma pageNumbersLoop_concat:
  "pageNumbersLoop i tp page acc = acc @ concat (map (pushFor tp page) [i..tp])"
proof (induction i tp page acc rule: pageNumbersLoop.induct)
  case (1 i tp page acc)
  show ?case
  proof (cases "i \<le> tp")
    case True
    then show ?thesis using 1 by (subst pageNumbersLoop.simps) (simp add: upto_rec1)
  next
    case False
    then show ?thesis by (subst pageNumbersLoop.simps) simp
  qed
qed

lemma pageNumbers_concat:
  assumes "pageSize \<noteq> 0"
  shows "pageNumbers page pageSize totalN =
     Some (concat (map (pushFor (totalPages totalN pageSize) page)
                     [1..totalPages totalN pageSize]))"
proof -
  have "pageNumbersLoop 1 (totalPages totalN pageSize) page [] =
      concat (map (pushFor (totalPages totalN pageSize) page) [1..totalPages totalN pageSize])"
    unfolding pageNumbersLoop_concat by (rule append_Nil)
  then show ?thesis using assms by (simp only: pageNumbers_def if_False simp_thms)
qed

lemma pageWindow_concat:
  assumes "pageSize \<noteq> 0"
  shows "pageWindow page pageSize totalN =
     Some (nonNull (renderItems False
       (concat (map (pushFor (totalPages totalN pageSize) page)
                  [1..totalPages totalN pageSize]))))"
  by (simp only: pageWindow_def pageNumbers_concat[OF assms] option.map)







lemma upto_1_20:
  "[1..20::int] = [1, 2, 3, 4, 5, 6, 7, 8, 9, 10, 11, 12, 13, 14, 15, 16, 17, 18, 19, 20]"
  by code_simp

lemma pageWindow_5_10_200:
  "pageWindow 5 10 200 =
     Some [Num 1, Ellipsis, Num 3, Num 4, Num 5, Num 6, Num 7, Ellipsis, Num 20]"
proof -
  have tp: "totalPages 200 10 = 20" by (simp add: totalPages_def)
  have ps: "(10::int) \<noteq> 0" by simp
  have "concat (map (pushFor 20 5) [1..20]) =
      [Num 1, Ellipsis, Num 3, Num 4, Num 5, Num 6, Num 7, Ellipsis, Num 20]"
    by (simp only: upto_1_20) (simp add: pushFor_def)
  then show ?thesis
    by (simp only: pageWindow_concat[OF ps] tp) simp
qed



text \<open>
  C8. For page 5, page size 10 and 200 tasks (20 pages) the window is
  1, ellipsis, 3, 4, 5, 6, 7, ellipsis, 20.
\<close>

theorem pageWindow_example:
  "pageWindow 5 10 200 =
     Some [Num 1, Ellipsis, Num 3, Num 4, Num 5, Num 6, Num 7, Ellipsis, Num 20]"
  by (rule pageWindow_5_10_200)

section \<open>Properties of the project navigation\<close>

lemma findIndexFrom_iff:
  "findIndexFrom k P xs = int i \<longleftrightarrow>
     (k \<le> i \<and> i - k < length xs \<and> P (xs ! (i - k)) \<and> (\<forall>j < i - k. \<not> P (xs ! j)))"
proof (induction xs arbitrary: k)
  case Nil
  show ?case by simp
next
  case (Cons x xs)
  show ?case
  proof (cases "P x")
    case True
    then show ?thesis by (cases "i - k") auto
  next
    case False
    have "findIndexFrom (Suc k) P xs = int i \<longleftrightarrow>
      (Suc k \<le> i \<and> i - Suc k < length xs \<and> P (xs ! (i - Suc k)) \<and> (\<forall>j < i - Suc k. \<not> P (xs ! j)))"
      by (rule Cons.IH)
    also have "\<dots> \<longleftrightarrow> (k \<le> i \<and> i - k < length (x # xs) \<and> P ((x # xs) ! (i - k))
        \<and> (\<forall>j < i - k. \<not> P ((x # xs) ! j)))"
    proof (cases "i - k")
      case 0
      then show ?thesis using False by auto
    next
      case (Suc m)
      then have ik: "i - Suc k = m" "Suc k \<le> i" "k \<le> i" by simp_all
      show ?thesis using False Suc ik
        by (auto simp add: nth_Cons split: nat.splits)
    qed
    finally show ?thesis using False by simp
  qed
qed

lemma findIndex_first:
  "i < length xs \<Longrightarrow>
     (int i = findIndex (\<lambda>t. project_id t = project_id (xs ! i)) xs) = firstOccurrence xs i"
  using findIndexFrom_iff[of 0 "\<lambda>t. project_id t = project_id (xs ! i)" xs i]
  by (auto simp add: findIndex_def firstOccurrence_def)

lemma uniqueItems_nths: "uniqueItems xs = nths xs {i. firstOccurrence xs i}"
proof -
  have "filter (\<lambda>(item, index). int index = findIndex (\<lambda>t. project_id t = project_id item) xs)
          (zip xs [0..<length xs])
      = filter (\<lambda>p. snd p \<in> {i. firstOccurrence xs i}) (zip xs [0..<length xs])"
  proof (rule filter_cong[OF refl])
    fix p assume "p \<in> set (zip xs [0..<length xs])"
    then obtain i where "i < length xs" "p = (xs ! i, i)"
      by (auto simp add: set_zip)
    then show "(case p of (item, index) \<Rightarrow>
        int index = findIndex (\<lambda>t. project_id t = project_id item) xs)
       = (snd p \<in> {i. firstOccurrence xs i})"
      using findIndex_first by simp
  qed
  then show ?thesis by (simp add: uniqueItems_def filterIndexed_def nths_def)
qed

lemma zip_upt_nth: "zip xs [0..<length xs] = map (\<lambda>i. (xs ! i, i)) [0..<length xs]"
  by (rule nth_equalityI) simp_all

lemma nths_filter_upt: "nths xs I = map ((!) xs) (filter (\<lambda>i. i \<in> I) [0..<length xs])"
  by (simp add: nths_def zip_upt_nth filter_map o_def)

lemma uniqueItems_indices:
  "uniqueItems xs = map ((!) xs) (filter (firstOccurrence xs) [0..<length xs])"
  by (simp add: uniqueItems_nths nths_filter_upt)

lemma uniqueItems_distinct: "distinct (map project_id (uniqueItems xs))"
proof -
  have "distinct (map project_id (map ((!) xs) (filter (firstOccurrence xs) [0..<length xs])))"
    unfolding map_map
  proof (rule iffD2[OF distinct_map], intro conjI)
    show "distinct (filter (firstOccurrence xs) [0..<length xs])" by simp
    show "inj_on (project_id \<circ> (!) xs) (set (filter (firstOccurrence xs) [0..<length xs]))"
    proof (rule inj_onI)
      fix i j
      assume a: "i \<in> set (filter (firstOccurrence xs) [0..<length xs])"
         "j \<in> set (filter (firstOccurrence xs) [0..<length xs])"
         "(project_id \<circ> (!) xs) i = (project_id \<circ> (!) xs) j"
      show "i = j"
      proof (rule ccontr)
        assume "i \<noteq> j"
        then consider "i < j" | "j < i" by linarith
        then show False using a by cases (auto simp add: firstOccurrence_def)
      qed
    qed
  qed
  then show ?thesis by (simp only: uniqueItems_indices)
qed

lemma first_index_exists:
  assumes "i < length xs"
  shows "\<exists>m. m < length xs \<and> firstOccurrence xs m \<and> project_id (xs ! m) = project_id (xs ! i)"
proof -
  define m where "m = (LEAST k. project_id (xs ! k) = project_id (xs ! i))"
  have eq: "project_id (xs ! m) = project_id (xs ! i)"
    unfolding m_def by (rule LeastI[of "\<lambda>k. project_id (xs ! k) = project_id (xs ! i)" i]) simp
  have le: "m \<le> i"
    unfolding m_def by (rule Least_le) simp
  have "firstOccurrence xs m"
    unfolding firstOccurrence_def
  proof (intro allI impI)
    fix j assume "j < m"
    then have "project_id (xs ! j) \<noteq> project_id (xs ! i)"
      unfolding m_def by (rule not_less_Least)
    then show "project_id (xs ! j) \<noteq> project_id (xs ! m)" using eq by simp
  qed
  moreover have "m < length xs" using le assms by simp
  ultimately show ?thesis using eq by blast
qed

lemma uniqueItems_ids: "set (map project_id (uniqueItems xs)) = set (map project_id xs)"
proof
  show "set (map project_id (uniqueItems xs)) \<subseteq> set (map project_id xs)"
    by (auto simp add: uniqueItems_nths dest: in_set_nthsD)
  show "set (map project_id xs) \<subseteq> set (map project_id (uniqueItems xs))"
  proof
    fix p assume "p \<in> set (map project_id xs)"
    then obtain i where i: "i < length xs" "p = project_id (xs ! i)"
      by (auto simp add: in_set_conv_nth)
    from first_index_exists[OF i(1)] obtain m where
      m: "m < length xs" "firstOccurrence xs m" "project_id (xs ! m) = project_id (xs ! i)"
      by blast
    have "xs ! m \<in> set (uniqueItems xs)"
      using m by (auto simp add: uniqueItems_nths set_nths)
    then have "project_id (xs ! m) \<in> project_id ` set (uniqueItems xs)" by (rule imageI)
    then show "p \<in> set (map project_id (uniqueItems xs))"
      using m i by simp
  qed
qed

lemma distinct_count_one: "distinct ys \<Longrightarrow> y \<in> set ys \<Longrightarrow> count_list ys y = 1"
  by (induction ys) auto

text \<open>
  C10. For every list of projects, the entries rendered by ProjectNav have pairwise
  different project ids, every project id of the input appears among them exactly once,
  and the entries are the elements of the input at the positions where a project id
  occurs for the first time, in the order of the input.
\<close>

theorem ProjectNav_dedup:
  "distinct (map project_id (renderedProjects (ProjectNav (Some xs))))
   \<and> (\<forall>p \<in> set (map project_id xs).
         count_list (map project_id (renderedProjects (ProjectNav (Some xs)))) p = 1)
   \<and> set (map project_id (renderedProjects (ProjectNav (Some xs)))) = set (map project_id xs)
   \<and> renderedProjects (ProjectNav (Some xs)) =
        map ((!) xs)
          (filter (\<lambda>i. \<forall>j < i. project_id (xs ! j) \<noteq> project_id (xs ! i)) [0..<length xs])
   \<and> subseq (renderedProjects (ProjectNav (Some xs))) xs"
proof -
  have r: "renderedProjects (ProjectNav (Some xs)) = uniqueItems xs"
    by (cases xs) (simp_all add: renderedProjects_def ProjectNav_def uniqueItems_nths)
  have d: "distinct (map project_id (uniqueItems xs))" by (rule uniqueItems_distinct)
  have s: "set (map project_id (uniqueItems xs)) = set (map project_id xs)"
    by (rule uniqueItems_ids)
  have c: "\<forall>p \<in> set (map project_id xs). count_list (map project_id (uniqueItems xs)) p = 1"
  proof
    fix p assume "p \<in> set (map project_id xs)"
    then have "p \<in> set (map project_id (uniqueItems xs))" using s by simp
    then show "count_list (map project_id (uniqueItems xs)) p = 1"
      using d by (rule distinct_count_one[rotated])
  qed
  have i: "uniqueItems xs = map ((!) xs)
          (filter (\<lambda>i. \<forall>j < i. project_id (xs ! j) \<noteq> project_id (xs ! i)) [0..<length xs])"
    using uniqueItems_indices[of xs] unfolding firstOccurrence_def[abs_def] .
  have q: "subseq (uniqueItems xs) xs"
    unfolding subseq_conv_nths uniqueItems_nths by blast
  show ?thesis unfolding r by (intro conjI d c s i q)
qed

theorem ProjectNav_dedup_witness:
  "distinct (map project_id (renderedProjects (ProjectNav (Some
      [\<lparr>project_id = ''a'', project_name = ''A''\<rparr>, \<lparr>project_id = ''b'', project_name = ''B''\<rparr>,
       \<lparr>project_id = ''a'', project_name = ''A again''\<rparr>]))))
   \<and> count_list (map project_id (renderedProjects (ProjectNav (Some
      [\<lparr>project_id = ''a'', project_name = ''A''\<rparr>, \<lparr>project_id = ''b'', project_name = ''B''\<rparr>,
       \<lparr>project_id = ''a'', project_name = ''A again''\<rparr>])))) ''a'' = 1
   \<and> subseq (renderedProjects (ProjectNav (Some
      [\<lparr>project_id = ''a'', project_name = ''A''\<rparr>, \<lparr>project_id = ''b'', project_name = ''B''\<rparr>,
       \<lparr>project_id = ''a'', project_name = ''A again''\<rparr>])))
      [\<lparr>project_id = ''a'', project_name = ''A''\<rparr>, \<lparr>project_id = ''b'', project_name = ''B''\<rparr>,
       \<lparr>project_id = ''a'', project_name = ''A again''\<rparr>]"
proof -
  let ?xs = "[\<lparr>project_id = ''a'', project_name = ''A''\<rparr>, \<lparr>project_id = ''b'', project_name = ''B''\<rparr>,
       \<lparr>project_id = ''a'', project_name = ''A again''\<rparr>]"
  note t = ProjectNav_dedup [of ?xs]
  have d: "distinct (map project_id (renderedProjects (ProjectNav (Some ?xs))))"
    using t by (rule conjunct1)
  have "\<forall>p \<in> set (map project_id ?xs).
         count_list (map project_id (renderedProjects (ProjectNav (Some ?xs)))) p = 1"
    using t by (elim conjE)
  moreover have "''a'' \<in> set (map project_id ?xs)" by simp
  ultimately have c: "count_list (map project_id (renderedProjects (ProjectNav (Some ?xs)))) ''a'' = 1"
    by (rule bspec)
  have q: "subseq (renderedProjects (ProjectNav (Some ?xs))) ?xs"
    using t by (elim conjE)
  show ?thesis by (intro conjI d c q)
qed

section \<open>Properties of the API client and of the attachments component\<close>

subsection \<open>Sequencing\<close>

lemma bind_Inr: "bind (evs, Inr x) f = (evs @ fst (f x), snd (f x))"
  by (simp add: bind_def split: prod.splits)

lemma bind_Inl: "bind (evs, Inl e) f = (evs, Inl e)"
  by (simp add: bind_def)

lemma bind_ret: "bind (ret x) f = f x"
  by (simp add: ret_def bind_Inr)

lemma bind_throw: "bind (throw e) f = throw e"
  by (simp add: throw_def bind_Inl)

lemma bind_emit: "bind (emit ev) f = (ev # fst (f ()), snd (f ()))"
  by (simp add: emit_def bind_Inr)

lemma tryCatch_Inr: "tryCatch (evs, Inr x) h = (evs, Inr x)"
  by (simp add: tryCatch_def)

lemma tryCatch_Inl: "tryCatch (evs, Inl e) h = (evs @ fst (h e), snd (h e))"
  by (simp add: tryCatch_def split: prod.splits)

lemmas io_simps = bind_Inr bind_Inl bind_ret bind_throw bind_emit tryCatch_Inr tryCatch_Inl

subsection \<open>Events of the shared blocks\<close>

lemma tokenOrSession_given: "t \<noteq> [] \<Longrightarrow> tokenOrSession env (Some t) = ([], Inr t)"
  by (simp add: tokenOrSession_def ret_def)

lemma readJson_events: "fst (readJson r) = [ReadJson]"
  by (simp add: readJson_def)

lemma errorFromJson_events: "fst (errorFromJson env what r) = [ReadJson]"
  by (cases "bodyJson r")
     (simp_all add: errorFromJson_def readJson_def propOf_def io_simps throw_def ret_def)

lemma errorFromJsonTry_events: "fst (errorFromJsonTry what r) = [ReadJson]"
  by (cases "bodyJson r")
     (simp_all add: errorFromJsonTry_def readJson_def io_simps throw_def)

lemma errorFromText_events: "fst (errorFromText what r) = [ReadText, JsonParse]"
  by (cases "bodyJson r")
     (simp_all add: errorFromText_def readText_def jsonParse_def io_simps throw_def)

lemma jsonOrFail_events:
  "fst (jsonOrFail fname r) =
     (case bodyJson r of
        Inl m \<Rightarrow> [ReadJson,
                  ConsoleError (''Failed to parse successful response JSON ('' @ fname @ ''):'') None]
      | Inr v \<Rightarrow> [ReadJson])"
  by (cases "bodyJson r")
     (simp_all add: jsonOrFail_def readJson_def io_simps throw_def)

lemma jsonOrFailLogged_events:
  "fst (jsonOrFailLogged fname r) =
     (case bodyJson r of
        Inl m \<Rightarrow> [ReadJson,
                  ConsoleError (''Failed to parse successful response JSON ('' @ fname @ ''):'')
                    (Some (SyntaxError m))]
      | Inr v \<Rightarrow> [ReadJson])"
  by (cases "bodyJson r")
     (simp_all add: jsonOrFailLogged_def readJson_def io_simps throw_def)

lemmas handler_events = readJson_events errorFromJson_events errorFromJsonTry_events
  errorFromText_events jsonOrFail_events jsonOrFailLogged_events

lemma tokenOrSession_events:
  "tokenOrSession env token = (evs0, r) \<Longrightarrow> evs0 = [] \<or> evs0 = [GetServerSession]"
  by (auto simp add: tokenOrSession_def io_simps ret_def throw_def
        split: option.splits if_splits)

lemma errorFromText_result:
  "snd (errorFromText what r) =
     Inl (Error (case bodyJson r of
                   Inl m \<Rightarrow> statusLine what r @ ''. Server responded with: '' @ bodyText r
                 | Inr d \<Rightarrow> if truthy (optProp d ''error'') then jsString (optProp d ''error'')
                            else statusLine what r))"
  by (cases "bodyJson r")
     (simp_all add: errorFromText_def readText_def jsonParse_def io_simps throw_def errorOr_def)

lemma errorFromJsonTry_result:
  "snd (errorFromJsonTry what r) =
     Inl (Error (case bodyJson r of
                   Inl m \<Rightarrow> statusLine what r
                 | Inr d \<Rightarrow> if truthy (optProp d ''error'') then jsString (optProp d ''error'')
                            else statusLine what r))"
  by (cases "bodyJson r")
     (simp_all add: errorFromJsonTry_def readJson_def io_simps throw_def errorOr_def)

lemma errorFromJson_result:
  "snd (errorFromJson env fallback r) =
     (case bodyJson r of
        Inl m \<Rightarrow> Inl (SyntaxError m)
      | Inr d \<Rightarrow>
          if d = JNull \<or> d = JUndefined then Inl (TypeError (nullPropertyText env))
          else Inl (Error (if truthy (getProp d ''error'') then jsString (getProp d ''error'')
                           else fallback)))"
  by (cases "bodyJson r")
     (simp_all add: errorFromJson_def readJson_def propOf_def io_simps throw_def ret_def
        errorOr_def)

lemma showNat_500: "showNat 500 = ''500''"
  by code_simp

subsection \<open>Preview eligibility\<close>

text \<open>
  C2, as stated, fails: \<open>application/pdf\<close> is tested as a prefix like the other two
  entries, so a type that merely starts with it is eligible without being equal to it.
\<close>

theorem canPreviewType_pdf_counterexample:
  "\<not> (canPreviewType (Some ''application/pdfx'') \<longleftrightarrow>
        (prefix ''image/'' ''application/pdfx'' \<or> prefix ''video/'' ''application/pdfx''
         \<or> ''application/pdfx'' = ''application/pdf''))"
  by (simp add: canPreviewType_def startsWith_def)

text \<open>
  C2, amended. A file type is eligible for preview exactly when it starts with
  \<open>image/\<close>, with \<open>video/\<close> or with \<open>application/pdf\<close>; a missing type is not
  eligible. A click on an eligible attachment opens the preview modal on it; a click on
  any other attachment leaves the state as it is and shows the toast that no preview is
  available.
\<close>

theorem canPreviewType_prefixes:
  "(canPreviewType (Some ft) \<longleftrightarrow>
      (prefix ''image/'' ft \<or> prefix ''video/'' ft \<or> prefix ''application/pdf'' ft))
   \<and> canPreviewType None = False
   \<and> handlePreviewClick att st =
       (if prefix ''image/'' (file_type att) \<or> prefix ''video/'' (file_type att)
           \<or> prefix ''application/pdf'' (file_type att)
        then ([], st\<lparr>previewAttachment := Some att, isPreviewModalOpen := True\<rparr>)
        else ([ToastInfo ''Preview is not available for this file type.''], st))"
proof -
  have a: "canPreviewType (Some t) \<longleftrightarrow>
      (prefix ''image/'' t \<or> prefix ''video/'' t \<or> prefix ''application/pdf'' t)" for t
    by (cases t) (simp_all add: canPreviewType_def startsWith_def)
  show ?thesis
    by (simp add: a handlePreviewClick_def) (simp add: canPreviewType_def)
qed

theorem canPreviewType_prefixes_witness:
  "canPreviewType (Some ''image/png'') \<and> canPreviewType (Some ''application/pdf'')
   \<and> \<not> canPreviewType (Some ''text/plain'') \<and> \<not> canPreviewType (Some [])"
proof -
  have "canPreviewType (Some ''image/png'')"
    using canPreviewType_prefixes [of "''image/png''"] by simp
  moreover have "canPreviewType (Some ''application/pdf'')"
    using canPreviewType_prefixes [of "''application/pdf''"] by simp
  moreover have "\<not> canPreviewType (Some ''text/plain'')"
    using canPreviewType_prefixes [of "''text/plain''"] by simp
  moreover have "\<not> canPreviewType (Some [])"
    using canPreviewType_prefixes [of "[]"] by simp
  ultimately show ?thesis by blast
qed

subsection \<open>Registration\<close>

text \<open>
  C9. Two calls of userRegister that agree on name, email and password behave alike
  whatever their telephone and address arguments are: the one request they issue goes to
  the same URL with the same method, headers and body, and the body holds name, email
  and password only.
\<close>

theorem userRegister_ignores_telephone_address:
  "userRegister env n name telephone address email password
     = userRegister env n name telephone' address' email password
   \<and> (\<exists>rest. fst (userRegister env n name telephone address email password) =
        Fetch \<lparr>url = (case NEXT_PUBLIC_API_URL env of None \<Rightarrow> ''undefined'' | Some u \<Rightarrow> u)
                      @ ''/auth/register'',
               httpMethod = ''POST'',
               headers = [(''Content-Type'', ''application/json'')],
               body = JsonBody (JObj [(''name'', JStr name), (''email'', JStr email),
                                      (''password'', JStr password)])\<rparr> # rest)"
  by (cases "fetchN env n
        \<lparr>url = (case NEXT_PUBLIC_API_URL env of None \<Rightarrow> ''undefined'' | Some u \<Rightarrow> u)
               @ ''/auth/register'',
         httpMethod = ''POST'',
         headers = [(''Content-Type'', ''application/json'')],
         body = JsonBody (JObj [(''name'', JStr name), (''email'', JStr email),
                                (''password'', JStr password)])\<rparr>")
     (simp_all add: userRegister_def doFetch_def io_simps)

subsection \<open>Confirming a deletion\<close>

text \<open>
  C7, as stated, fails: when the token is missing, \<open>confirmDelete\<close> returns at its
  guard and the pending attachment id stays.
\<close>

theorem confirmDelete_no_token_counterexample:
  "deletingAttachmentId (snd (confirmDelete offlineEnv 0 ''task1'' None
      (idleState\<lparr>deletingAttachmentId := Some ''a1'', deleteAlertOpen := True\<rparr>))) = Some ''a1''
   \<and> deleteAlertOpen (snd (confirmDelete offlineEnv 0 ''task1'' None
      (idleState\<lparr>deletingAttachmentId := Some ''a1'', deleteAlertOpen := True\<rparr>))) = True"
  by (simp add: confirmDelete_def noToken_def idleState_def)

text \<open>
  C7, amended. In every execution of \<open>confirmDelete\<close> that passes its guard (a pending
  attachment id and a token are present, so the delete call is made), whether the delete
  call succeeds or throws, the pending id is cleared and the prompt is closed afterwards.
\<close>

theorem confirmDelete_clears:
  assumes "deletingAttachmentId st = Some pending" "pending \<noteq> []" "\<not> noToken token"
  shows "deletingAttachmentId (snd (confirmDelete env n taskId token st)) = None
       \<and> deleteAlertOpen (snd (confirmDelete env n taskId token st)) = False"
  using assms
  by (simp add: confirmDelete_def split: prod.splits sum.splits)

theorem confirmDelete_clears_witness:
  "deletingAttachmentId (snd (confirmDelete offlineEnv 0 ''task1'' (Some ''tok'')
      (idleState\<lparr>deletingAttachmentId := Some ''a1'', deleteAlertOpen := True\<rparr>))) = None
   \<and> deleteAlertOpen (snd (confirmDelete offlineEnv 0 ''task1'' (Some ''tok'')
      (idleState\<lparr>deletingAttachmentId := Some ''a1'', deleteAlertOpen := True\<rparr>))) = False
   \<and> deletingAttachmentId (snd (confirmDelete (constEnv noContent) 0 ''task1'' (Some ''tok'')
      (idleState\<lparr>deletingAttachmentId := Some ''a1'', deleteAlertOpen := True\<rparr>))) = None
   \<and> deleteAlertOpen (snd (confirmDelete (constEnv noContent) 0 ''task1'' (Some ''tok'')
      (idleState\<lparr>deletingAttachmentId := Some ''a1'', deleteAlertOpen := True\<rparr>))) = False"
proof -
  let ?st = "idleState\<lparr>deletingAttachmentId := Some ''a1'', deleteAlertOpen := True\<rparr>"
  have h: "deletingAttachmentId ?st = Some ''a1''" "''a1'' \<noteq> []" "\<not> noToken (Some ''tok'')"
    by (simp_all add: noToken_def)
  from confirmDelete_clears [OF h, of offlineEnv 0 "''task1''"]
       confirmDelete_clears [OF h, of "constEnv noContent" 0 "''task1''"]
  show ?thesis by blast
qed

subsection \<open>Upload\<close>

lemma getSignedUploadUrl_events:
  assumes "t \<noteq> []"
    and "getSignedUploadUrl env n taskId fname ftype (Some t) = (evs1, res)"
  shows "\<not> list_ex (isRecordRequest env) evs1"
proof -
  let ?req = "\<lparr>url = API_URL env @ ''/attachments/signed-upload-url'', httpMethod = ''POST'',
               headers = bearerJson t,
               body = JsonBody (JObj [(''taskId'', JStr taskId), (''fileName'', JStr fname),
                                      (''fileType'', JStr ftype)])\<rparr>"
  show ?thesis
  proof (cases "fetchN env n ?req")
    case (Inl e)
    then show ?thesis using assms
      by (auto simp add: getSignedUploadUrl_def resource_def tokenOrSession_given doFetch_def
            io_simps isRecordRequest_def)
  next
    case (Inr r)
    then show ?thesis using assms
      by (auto simp add: getSignedUploadUrl_def resource_def tokenOrSession_given doFetch_def
            io_simps handler_events isRecordRequest_def split: if_splits)
  qed
qed

text \<open>
  C5. Whenever \<open>handleFileUpload\<close> reaches its second step and the PUT to storage
  comes back with a non-OK response, the events are those of the first two steps followed
  by the console message and the error toast: no request to register the attachment is
  issued, and the state differs from the one before only in the reset upload flags, so
  the attachment list is unchanged.
\<close>

theorem upload_storage_failure:
  assumes sel: "selectedFile st = Some f"
    and tok: "token = Some t" "t \<noteq> []"
    and s1: "getSignedUploadUrl env n taskId (fileName f) (fileType f) token = (evs1, Inr res)"
    and nn: "res \<noteq> JNull" "res \<noteq> JUndefined"
    and s2: "uploadFileToGcs env (n + 1) (getProp res ''url'') f = (evs2, Inr uploadRes)"
    and bad: "\<not> ok uploadRes"
  shows "handleFileUpload env n taskId token st =
           (evs1 @ evs2 @
              [ConsoleError ''Failed to upload attachment:''
                 (Some (Error ''Failed to upload file to storage.'')),
               ToastError ''Failed to upload attachment: Failed to upload file to storage.''],
            st\<lparr>isUploading := False, uploadProgress := 0\<rparr>)
       \<and> \<not> list_ex (isRecordRequest env) (fst (handleFileUpload env n taskId token st))
       \<and> attachments (snd (handleFileUpload env n taskId token st)) = attachments st"
proof -
  have steps: "uploadSteps env n taskId token f =
      (evs1 @ evs2, Inl (Error ''Failed to upload file to storage.''))"
    using s1 s2 nn bad
    by (simp add: uploadSteps_def urlAndName_def io_simps throw_def ret_def)
  have run: "handleFileUpload env n taskId token st =
           (evs1 @ evs2 @
              [ConsoleError ''Failed to upload attachment:''
                 (Some (Error ''Failed to upload file to storage.'')),
               ToastError ''Failed to upload attachment: Failed to upload file to storage.''],
            st\<lparr>isUploading := False, uploadProgress := 0\<rparr>)"
    using sel tok steps by (simp add: handleFileUpload_def noToken_def)
  have e1: "\<not> list_ex (isRecordRequest env) evs1"
    using getSignedUploadUrl_events[OF tok(2)] s1 tok(1) by blast
  have e2: "\<not> list_ex (isRecordRequest env) evs2"
    using s2 by (auto simp add: uploadFileToGcs_def doFetch_def isRecordRequest_def)
  show ?thesis using e1 e2 by (simp add: run isRecordRequest_def)
qed

theorem upload_storage_failure_witness:
  "handleFileUpload uploadEnv 0 ''task1'' (Some ''tok'') (idleState\<lparr>selectedFile := Some reportPdf\<rparr>) =
     ([Fetch \<lparr>url = ''http://localhost:5000/api/v1/attachments/signed-upload-url'',
              httpMethod = ''POST'', headers = bearerJson ''tok'',
              body = JsonBody (JObj [(''taskId'', JStr ''task1''), (''fileName'', JStr ''report.pdf''),
                                     (''fileType'', JStr ''application/pdf'')])\<rparr>,
       ReadJson,
       Fetch \<lparr>url = ''https://storage.example/put'', httpMethod = ''PUT'',
              headers = [(''Content-Type'', ''application/pdf''), (''Content-Length'', ''7'')],
              body = FileBody reportPdf\<rparr>,
       ConsoleError ''Failed to upload attachment:''
         (Some (Error ''Failed to upload file to storage.'')),
       ToastError ''Failed to upload attachment: Failed to upload file to storage.''],
      idleState\<lparr>selectedFile := Some reportPdf, isUploading := False, uploadProgress := 0\<rparr>)
   \<and> attachments (snd (handleFileUpload uploadEnv 0 ''task1'' (Some ''tok'')
         (idleState\<lparr>selectedFile := Some reportPdf\<rparr>))) = []"
proof -
  let ?st = "idleState\<lparr>selectedFile := Some reportPdf\<rparr>"
  let ?res = "JObj [(''url'', JStr ''https://storage.example/put''), (''gcsFileName'', JStr ''obj1'')]"
  let ?evs1 = "[Fetch \<lparr>url = ''http://localhost:5000/api/v1/attachments/signed-upload-url'',
              httpMethod = ''POST'', headers = bearerJson ''tok'',
              body = JsonBody (JObj [(''taskId'', JStr ''task1''), (''fileName'', JStr ''report.pdf''),
                                     (''fileType'', JStr ''application/pdf'')])\<rparr>,
       ReadJson]"
  let ?evs2 = "[Fetch \<lparr>url = ''https://storage.example/put'', httpMethod = ''PUT'',
              headers = [(''Content-Type'', ''application/pdf''), (''Content-Length'', ''7'')],
              body = FileBody reportPdf\<rparr>]"
  have h1: "selectedFile ?st = Some reportPdf" by simp
  have h2: "Some ''tok'' = Some ''tok''" "''tok'' \<noteq> []" by simp_all
  have h3: "getSignedUploadUrl uploadEnv 0 ''task1'' (fileName reportPdf) (fileType reportPdf)
              (Some ''tok'') = (?evs1, Inr ?res)"
    by (simp add: getSignedUploadUrl_def resource_def tokenOrSession_given doFetch_def io_simps
          readJson_def uploadEnv_def signedUrlResponse_def ok_def API_URL_def reportPdf_def)
  have h4: "?res \<noteq> JNull" "?res \<noteq> JUndefined" by simp_all
  have h5: "uploadFileToGcs uploadEnv (0 + 1) (getProp ?res ''url'') reportPdf
              = (?evs2, Inr forbidden)"
    by (simp add: uploadFileToGcs_def doFetch_def uploadEnv_def reportPdf_def)
  have h6: "\<not> ok forbidden" by (simp add: ok_def forbidden_def)
  from upload_storage_failure [OF h1 h2 h3 h4 h5 h6]
  show ?thesis by (simp add: idleState_def)
qed

subsection \<open>Non-OK responses\<close>

text \<open>
  C3 at a 500 response whose body is an HTML page: \<open>createAttachment\<close> lets the
  SyntaxError of \<open>response.json()\<close> escape, with the parser's message and no status
  code, where \<open>createTask\<close> throws an Error whose message carries the status line and
  the body text.
\<close>

theorem createAttachment_unparseable_body:
  "createAttachment (constEnv htmlError) 0 (JObj []) (Some ''tok'') =
     ([Fetch \<lparr>url = ''http://localhost:5000/api/v1/attachments'', httpMethod = ''POST'',
              headers = bearerJson ''tok'', body = JsonBody (JObj [])\<rparr>,
       ReadJson],
      Inl (SyntaxError ''Unexpected token <''))
   \<and> createTask (constEnv htmlError) 0 (JObj []) (Some ''tok'') =
     ([Fetch \<lparr>url = ''http://localhost:5000/api/v1/tasks'', httpMethod = ''POST'',
              headers = bearerJson ''tok'', body = JsonBody (JObj [])\<rparr>,
       ReadText, JsonParse],
      Inl (Error (''Failed to create task: 500 Internal Server Error. Server responded with: ''
                  @ ''<html>Internal Server Error</html>'')))"
  by (simp add: createAttachment_def createTask_def resource_def tokenOrSession_def doFetch_def
        io_simps constEnv_def htmlError_def ok_def API_URL_def errorFromJson_def errorFromText_def
        readJson_def readText_def jsonParse_def statusLine_def showNat_500 throw_def ret_def)

subsection \<open>Token fallback\<close>

lemma tokenOrSession_fallback:
  "noToken token \<Longrightarrow> sessionToken env = Some s \<Longrightarrow> s \<noteq> [] \<Longrightarrow>
     tokenOrSession env token = ([GetServerSession], Inr s)"
  by (auto simp add: tokenOrSession_def noToken_def io_simps ret_def split: option.splits)

lemma tokenOrSession_none:
  "noToken token \<Longrightarrow> sessionToken env = None \<or> sessionToken env = Some [] \<Longrightarrow>
     tokenOrSession env token = ([GetServerSession], Inl (Error ''No authentication token''))"
  by (auto simp add: tokenOrSession_def noToken_def io_simps throw_def split: option.splits)

lemma resource_fallback:
  assumes "noToken token" "sessionToken env = Some s" "s \<noteq> []"
    and "\<forall>r. quiet (fst (handler r))"
  shows "\<exists>rest. fst (resource env n token mkRequest handler)
                 = GetServerSession # Fetch (mkRequest s) # rest \<and> quiet rest"
proof (cases "fetchN env n (mkRequest s)")
  case (Inl e)
  then show ?thesis
    using assms(1-3)
    by (simp add: resource_def tokenOrSession_fallback doFetch_def io_simps quiet_def)
next
  case (Inr r)
  then show ?thesis
    using assms
    by (simp add: resource_def tokenOrSession_fallback doFetch_def io_simps)
qed

lemma resource_none:
  assumes "noToken token" "sessionToken env = None \<or> sessionToken env = Some []"
  shows "resource env n token mkRequest handler
           = ([GetServerSession], Inl (Error ''No authentication token''))"
  using assms by (simp add: resource_def tokenOrSession_none io_simps)

lemma quiet_reads:
  "quiet [ReadJson]" "quiet [ReadText, JsonParse]" "quiet []"
  "quiet [ReadJson, ConsoleError m e]"
  by (simp_all add: quiet_def isFetch_def)

lemma quiet_std:
  "quiet (fst (if \<not> ok r then errorFromText what r else jsonOrFail fname r))"
  "quiet (fst (if \<not> ok r then errorFromJson env what r else readJson r))"
  "quiet (fst (if \<not> ok r then errorFromJsonTry what r else jsonOrFailLogged fname r))"
  by (simp_all add: handler_events quiet_reads split: sum.splits)

lemma quiet_special:
  "quiet (fst (if \<not> ok r then errorFromText what r
               else if status r = 204 then ret v else jsonOrFail fname r))"
  "quiet (fst (if \<not> ok r then errorFromJsonTry what r
               else if status r = 204 then ret v else jsonOrFailLogged fname r))"
  "quiet (fst (if \<not> ok r then errorFromJson env what r
               else bind (readJson r) (\<lambda>data. propOf env data key)))"
  by (simp_all add: handler_events quiet_reads ret_def readJson_def propOf_def throw_def io_simps
        split: sum.splits)

lemma resource_fallback_auth:
  assumes "noToken token" "sessionToken env = Some s" "s \<noteq> []"
    and "\<forall>r. quiet (fst (handler r))"
    and "\<forall>tok. authorization (mkRequest tok) = Some (''Bearer '' @ tok)"
  shows "\<exists>req rest. fst (resource env n token mkRequest handler)
                 = GetServerSession # Fetch req # rest \<and> quiet rest
               \<and> authorization req = Some (''Bearer '' @ s)"
  using resource_fallback[OF assms(1-4), of n mkRequest] assms(5) by blast

lemmas api_defs = createTask_def getAllTasks_def getTask_def updateTask_def
  getTaskAssignees_def assignUserToTask_def unassignUserFromTask_def getUserTasks_def
  createAttachment_def uploadAttachment_def getTaskAttachments_def getAllAttachments_def
  getAttachment_def updateAttachment_def deleteAttachment_def
  getAttachmentSignedDownloadUrl_def getSignedUploadUrl_def createAttachmentRecord_def

lemma call_fallback:
  assumes nt: "noToken token" and ss: "sessionToken env = Some s" "s \<noteq> []"
    and nd: "\<forall>i. c \<noteq> DeleteTask i"
  shows "\<exists>req rest. fst (call env n c token) = GetServerSession # Fetch req # rest
           \<and> quiet rest \<and> authorization req = Some (''Bearer '' @ s)"
proof (cases c)
  case (DeleteTask i)
  then show ?thesis using nd by simp
qed (simp_all only: call.simps api_defs,
     (rule resource_fallback_auth[OF nt ss], rule allI, rule quiet_std quiet_special,
      simp add: authorization_def bearerJson_def)+)

lemma call_none:
  assumes nt: "noToken token" and ss: "sessionToken env = None \<or> sessionToken env = Some []"
    and nd: "\<forall>i. c \<noteq> DeleteTask i"
  shows "call env n c token = ([GetServerSession], Inl (Error ''No authentication token''))"
proof (cases c)
  case (DeleteTask i)
  then show ?thesis using nd by simp
qed (simp_all only: call.simps api_defs resource_none[OF nt ss])

lemma deleteTask_no_token:
  "noToken token \<Longrightarrow>
     deleteTask env n i token = ([], Inl (Error ''Authentication token is required.''))"
  by (auto simp add: deleteTask_def noToken_def io_simps throw_def split: option.splits)

text \<open>
  C4, as stated, fails for \<open>deleteTask\<close>: called without a token it throws at once,
  although the session has a token.
\<close>

theorem deleteTask_session_counterexample:
  "sessionToken (constEnv noContent) = Some ''session-token''
   \<and> deleteTask (constEnv noContent) 0 ''task1'' None
       = ([], Inl (Error ''Authentication token is required.''))"
  by (simp add: constEnv_def deleteTask_def io_simps throw_def)

text \<open>
  C4, amended. Every function of the API client that takes a token, other than
  \<open>deleteTask\<close>, when called without one looks the token up in the session first: with
  a session token it then issues exactly one request, which carries that token as bearer
  token, and without a session token it throws "No authentication token" and issues no
  request. \<open>deleteTask\<close> called without a token throws "Authentication token is
  required." without looking at the session and without a request.
\<close>

theorem token_fallback:
  assumes nt: "noToken token"
  shows "((\<forall>i. c \<noteq> DeleteTask i) \<and> sessionToken env = Some s \<and> s \<noteq> [] \<longrightarrow>
            (\<exists>req rest. fst (call env n c token) = GetServerSession # Fetch req # rest
                \<and> \<not> list_ex isFetch rest
                \<and> map_of (headers req) ''Authorization'' = Some (''Bearer '' @ s)))
       \<and> ((\<forall>i. c \<noteq> DeleteTask i) \<and> (sessionToken env = None \<or> sessionToken env = Some []) \<longrightarrow>
            call env n c token = ([GetServerSession], Inl (Error ''No authentication token'')))
       \<and> call env n (DeleteTask i) token
            = ([], Inl (Error ''Authentication token is required.''))"
proof (intro conjI impI)
  assume a: "(\<forall>i. c \<noteq> DeleteTask i) \<and> sessionToken env = Some s \<and> s \<noteq> []"
  then obtain req rest where
    "fst (call env n c token) = GetServerSession # Fetch req # rest"
    "quiet rest" "authorization req = Some (''Bearer '' @ s)"
    using call_fallback[OF nt, of env s c n] by blast
  then show "\<exists>req rest. fst (call env n c token) = GetServerSession # Fetch req # rest
                \<and> \<not> list_ex isFetch rest
                \<and> map_of (headers req) ''Authorization'' = Some (''Bearer '' @ s)"
    by (auto simp add: quiet_def authorization_def)
next
  assume "(\<forall>i. c \<noteq> DeleteTask i) \<and> (sessionToken env = None \<or> sessionToken env = Some [])"
  then show "call env n c token = ([GetServerSession], Inl (Error ''No authentication token''))"
    using call_none[OF nt] by blast
next
  show "call env n (DeleteTask i) token
            = ([], Inl (Error ''Authentication token is required.''))"
    using nt by (simp add: deleteTask_no_token)
qed

theorem token_fallback_witness:
  "(\<exists>req rest. fst (call (constEnv noContent) 0 (DeleteAttachment ''a1'') None)
        = GetServerSession # Fetch req # rest
      \<and> \<not> list_ex isFetch rest
      \<and> map_of (headers req) ''Authorization'' = Some (''Bearer '' @ ''session-token''))
   \<and> call offlineEnv 0 (DeleteAttachment ''a1'') None
        = ([GetServerSession], Inl (Error ''No authentication token''))
   \<and> call offlineEnv 0 (DeleteTask ''task1'') None
        = ([], Inl (Error ''Authentication token is required.''))"
proof -
  have nt: "noToken None" by (simp add: noToken_def)
  have a: "(\<forall>i. DeleteAttachment ''a1'' \<noteq> DeleteTask i)
      \<and> sessionToken (constEnv noContent) = Some ''session-token'' \<and> ''session-token'' \<noteq> []"
    by (simp add: constEnv_def)
  have b: "(\<forall>i. DeleteAttachment ''a1'' \<noteq> DeleteTask i)
      \<and> (sessionToken offlineEnv = None \<or> sessionToken offlineEnv = Some [])"
    by (simp add: offlineEnv_def)
  from token_fallback [OF nt, of "DeleteAttachment ''a1''" "constEnv noContent" "''session-token''" 0]
       a
  have c1: "\<exists>req rest. fst (call (constEnv noContent) 0 (DeleteAttachment ''a1'') None)
        = GetServerSession # Fetch req # rest
      \<and> \<not> list_ex isFetch rest
      \<and> map_of (headers req) ''Authorization'' = Some (''Bearer '' @ ''session-token'')"
    by blast
  from token_fallback [OF nt, of "DeleteAttachment ''a1''" offlineEnv _ 0 "''task1''"] b
  have c2: "call offlineEnv 0 (DeleteAttachment ''a1'') None
        = ([GetServerSession], Inl (Error ''No authentication token''))"
    and c3: "call offlineEnv 0 (DeleteTask ''task1'') None
        = ([], Inl (Error ''Authentication token is required.''))"
    by blast+
  show ?thesis using c1 c2 c3 by blast
qed

subsection \<open>Deleting with a 204 answer\<close>

text \<open>
  C6. When the backend answers a DELETE request with status 204, \<open>deleteAttachment\<close>
  resolves to the message object it makes up itself and \<open>deleteTask\<close> resolves to
  nothing (\<open>undefined\<close>); in both the only event after the token lookup is the request,
  so the body is never read or parsed as JSON.
\<close>

theorem delete_204:
  assumes tk: "tokenOrSession env token = (evs0, Inr tok)"
    and t: "t \<noteq> []"
    and srv: "\<forall>req. httpMethod req = ''DELETE'' \<longrightarrow> (\<exists>r. fetchN env n req = Inr r \<and> status r = 204)"
  shows "deleteAttachment env n attachmentId token =
           (evs0 @ [Fetch \<lparr>url = API_URL env @ ''/attachments/'' @ attachmentId,
                           httpMethod = ''DELETE'',
                           headers = [(''Authorization'', ''Bearer '' @ tok)], body = NoBody\<rparr>],
            Inr (JObj [(''message'', JStr ''Attachment deleted successfully'')]))
       \<and> deleteTask env n taskId (Some t) =
           ([Fetch \<lparr>url = API_URL env @ ''/tasks/'' @ taskId, httpMethod = ''DELETE'',
                    headers = [(''Authorization'', ''Bearer '' @ t)], body = NoBody\<rparr>],
            Inr JUndefined)
       \<and> \<not> list_ex isJsonRead (fst (deleteAttachment env n attachmentId token))
       \<and> \<not> list_ex isJsonRead (fst (deleteTask env n taskId (Some t)))"
proof -
  let ?ra = "\<lparr>url = API_URL env @ ''/attachments/'' @ attachmentId, httpMethod = ''DELETE'',
              headers = [(''Authorization'', ''Bearer '' @ tok)], body = NoBody\<rparr>"
  let ?rt = "\<lparr>url = API_URL env @ ''/tasks/'' @ taskId, httpMethod = ''DELETE'',
              headers = [(''Authorization'', ''Bearer '' @ t)], body = NoBody\<rparr>"
  from srv obtain r1 where r1: "fetchN env n ?ra = Inr r1" "status r1 = 204"
    by (metis request.select_convs(2))
  from srv obtain r2 where r2: "fetchN env n ?rt = Inr r2" "status r2 = 204"
    by (metis request.select_convs(2))
  have a: "deleteAttachment env n attachmentId token =
      (evs0 @ [Fetch ?ra], Inr (JObj [(''message'', JStr ''Attachment deleted successfully'')]))"
    using tk r1 by (simp add: deleteAttachment_def resource_def doFetch_def io_simps ok_def ret_def)
  have b: "deleteTask env n taskId (Some t) = ([Fetch ?rt], Inr JUndefined)"
    using t r2 by (simp add: deleteTask_def doFetch_def io_simps ok_def ret_def)
  have c: "\<not> list_ex isJsonRead evs0"
    using tokenOrSession_events[OF tk] by (auto simp add: isJsonRead_def)
  show ?thesis using c by (simp add: a b isJsonRead_def)
qed

theorem delete_204_witness:
  "deleteAttachment (constEnv noContent) 0 ''a1'' None =
     ([GetServerSession,
       Fetch \<lparr>url = API_URL (constEnv noContent) @ ''/attachments/'' @ ''a1'',
              httpMethod = ''DELETE'',
              headers = [(''Authorization'', ''Bearer '' @ ''session-token'')], body = NoBody\<rparr>],
      Inr (JObj [(''message'', JStr ''Attachment deleted successfully'')]))
   \<and> deleteTask (constEnv noContent) 0 ''task1'' (Some ''tok'') =
     ([Fetch \<lparr>url = API_URL (constEnv noContent) @ ''/tasks/'' @ ''task1'',
              httpMethod = ''DELETE'',
              headers = [(''Authorization'', ''Bearer '' @ ''tok'')], body = NoBody\<rparr>],
      Inr JUndefined)
   \<and> \<not> list_ex isJsonRead (fst (deleteAttachment (constEnv noContent) 0 ''a1'' None))
   \<and> \<not> list_ex isJsonRead (fst (deleteTask (constEnv noContent) 0 ''task1'' (Some ''tok'')))"
proof -
  have h1: "tokenOrSession (constEnv noContent) None = ([GetServerSession], Inr ''session-token'')"
    by (simp add: tokenOrSession_def constEnv_def io_simps ret_def)
  have h2: "''tok'' \<noteq> []" by simp
  have h3: "\<forall>req. httpMethod req = ''DELETE'' \<longrightarrow>
      (\<exists>r. fetchN (constEnv noContent) 0 req = Inr r \<and> status r = 204)"
    by (simp add: constEnv_def noContent_def)
  from delete_204 [OF h1 h2 h3, of "''a1''" "''task1''"]
  show ?thesis by (simp add: isJsonRead_def)
qed

end
